theory Spec2Isabelle
  imports Complex_Main
begin

section \<open>Authentication types (shared/auth/types.ts)\<close>

datatype UserRole = Role_admin | Role_user

record User =
  id' :: string
  email :: string
  name :: string
  role :: UserRole
  avatar :: "string option"

record TokenPair =
  accessToken :: string
  refreshToken :: string

record LoginCredentials =
  email :: string
  password :: string

record LoginResponse =
  user :: User
  tokens :: TokenPair

datatype AuthErrorCode =
    INVALID_CREDENTIALS
  | TOKEN_EXPIRED
  | TOKEN_INVALID
  | SESSION_NOT_FOUND
  | USER_NOT_FOUND
  | UPDATE_FAILED
  | INVALID_PASSWORD
  | WEAK_PASSWORD
  | SAME_PASSWORD

record AuthError =
  code :: AuthErrorCode
  message :: string

definition STORAGE_KEYS_ACCESS_TOKEN :: string where
  "STORAGE_KEYS_ACCESS_TOKEN = ''accessToken''"

definition STORAGE_KEYS_REFRESH_TOKEN :: string where
  "STORAGE_KEYS_REFRESH_TOKEN = ''refreshToken''"

definition STORAGE_KEYS_USER_INFO :: string where
  "STORAGE_KEYS_USER_INFO = ''userInfo''"

text \<open>An entry of the directory file \<open>/mock-data/auth.json\<close>.\<close>

record UserCredential = User +
  password :: string

section \<open>JSON values and what JavaScript does with them\<close>

text \<open>
  What the source reads back from localStorage is whatever \<open>JSON.parse\<close> returns: the
  type assertions of the source (\<open>as TokenMetadata\<close>, \<open>as User\<close>) are erased at run time
  and check nothing. So a parsed value is an arbitrary JSON value, and the fields of the
  source's interfaces are properties that may be missing or hold any value. A number is a
  finite value or one of the two infinities (\<open>JSON.parse\<close> of \<open>1e999\<close>).
\<close>

datatype number = Finite rat | PlusInfinity | MinusInfinity

datatype json =
    JNull
  | JBool bool
  | JNumber number
  | JString string
  | JArray "json list"
  | JObject "(string \<times> json) list"

datatype jserror = TypeError

text \<open>
  Two conversions of the JavaScript engine are taken as parameters: \<open>numeric\<close>, the number
  a string reads as, and an array through its text (\<open>"5000"\<close> and \<open>[5000]\<close> read as 5000;
  \<open>None\<close> is not-a-number), and \<open>NumberToString\<close>, the text of a number.
\<close>

record JS =
  numeric :: "json \<Rightarrow> number option"
  NumberToString :: "number \<Rightarrow> string"

text \<open>
  \<open>v.k\<close> for the property names the source reads (none of them is a property of a
  string, of an array or of another primitive): \<open>None\<close> is \<open>undefined\<close>.
\<close>

fun property :: "json \<Rightarrow> string \<Rightarrow> json option" where
  "property (JObject kvs) k = map_of kvs k"
| "property _ k = None"

text \<open>\<open>!v\<close> is true for \<open>null\<close>, \<open>false\<close>, zero and the empty string.\<close>

fun truthy_json :: "json \<Rightarrow> bool" where
  "truthy_json JNull = False"
| "truthy_json (JBool b) = b"
| "truthy_json (JNumber n) = (n \<noteq> Finite 0)"
| "truthy_json (JString s) = (s \<noteq> [])"
| "truthy_json (JArray xs) = True"
| "truthy_json (JObject kvs) = True"

text \<open>
  An object made by an object literal, as \<open>JSON.stringify\<close> sees it and as its
  properties read: a property whose value is \<open>undefined\<close> is as good as missing.
\<close>

fun obj :: "(string \<times> json option) list \<Rightarrow> json" where
  "obj kvs = JObject (List.map_filter (\<lambda>(k, v). map_option (Pair k) v) kvs)"

text \<open>
  \<open>{...o, k: v}\<close> on the properties of \<open>o\<close>: \<open>k\<close> keeps its place when \<open>o\<close> has it and
  comes last otherwise.
\<close>

fun set_prop :: "(string \<times> json) list \<Rightarrow> string \<Rightarrow> json \<Rightarrow> (string \<times> json) list" where
  "set_prop [] k v = [(k, v)]"
| "set_prop ((k', v') # kvs) k v =
     (if k' = k then (k, v) # kvs else (k', v') # set_prop kvs k v)"

text \<open>
  The conversion of a value to a primitive raises a TypeError when no callable
  \<open>toString\<close> is found: an object parsed from JSON with a property named \<open>toString\<close>
  hides \<open>Object.prototype.toString\<close> behind a value that is not a function. An array is
  converted through the texts of its elements (\<open>null\<close> excepted).
\<close>

fun raises :: "json \<Rightarrow> bool" where
  "raises (JObject kvs) = (''toString'' \<in> fst ` set kvs)"
| "raises (JArray xs) = list_ex raises xs"
| "raises _ = False"

text \<open>
  \<open>ToNumber\<close> of the right operand of \<open><\<close>, \<open>undefined\<close> included: \<open>Inr None\<close> is
  not-a-number. An object that does not raise reads as \<open>[object Object]\<close>, which is
  not a number.
\<close>

fun ToNumber :: "JS \<Rightarrow> json option \<Rightarrow> jserror + number option" where
  "ToNumber js None = Inr None"
| "ToNumber js (Some JNull) = Inr (Some (Finite 0))"
| "ToNumber js (Some (JBool b)) = Inr (Some (Finite (if b then 1 else 0)))"
| "ToNumber js (Some (JNumber n)) = Inr (Some n)"
| "ToNumber js (Some (JString s)) = Inr (numeric js (JString s))"
| "ToNumber js (Some (JArray xs)) =
     (if raises (JArray xs) then Inl TypeError else Inr (numeric js (JArray xs)))"
| "ToNumber js (Some (JObject kvs)) =
     (if raises (JObject kvs) then Inl TypeError else Inr None)"

text \<open>\<open>t < x\<close> for a clock reading \<open>t\<close>: false when \<open>x\<close> is not a number.\<close>

fun less_than :: "int \<Rightarrow> number option \<Rightarrow> bool" where
  "less_than t None = False"
| "less_than t (Some (Finite r)) = (of_int t < r)"
| "less_than t (Some PlusInfinity) = True"
| "less_than t (Some MinusInfinity) = False"

subsection \<open>The text of a value\<close>

fun hex_digit :: "nat \<Rightarrow> char" where
  "hex_digit n = (if n < 10 then char_of (48 + n) else char_of (87 + n))"

text \<open>
  \<open>JSON.stringify\<close> escapes the quote, the backslash and the control characters; the
  bytes of a character beyond ASCII stay as they are.
\<close>

fun escape_char :: "char \<Rightarrow> string" where
  "escape_char c =
     (if c = CHR 0x22 then [CHR 0x5C, CHR 0x22]
      else if c = CHR 0x5C then [CHR 0x5C, CHR 0x5C]
      else if c = CHR 0x08 then [CHR 0x5C, CHR ''b'']
      else if c = CHR 0x0C then [CHR 0x5C, CHR ''f'']
      else if c = CHR 0x0A then [CHR 0x5C, CHR ''n'']
      else if c = CHR 0x0D then [CHR 0x5C, CHR ''r'']
      else if c = CHR 0x09 then [CHR 0x5C, CHR ''t'']
      else if of_char c < (32::nat)
      then [CHR 0x5C, CHR ''u'', CHR ''0'', CHR ''0'',
            hex_digit (of_char c div 16), hex_digit (of_char c mod 16)]
      else [c])"

definition quoted :: "string \<Rightarrow> string" where
  "quoted s = CHR 0x22 # concat (map escape_char s) @ [CHR 0x22]"

fun commas :: "string list \<Rightarrow> string" where
  "commas [] = []"
| "commas [x] = x"
| "commas (x # y # zs) = x @ '','' @ commas (y # zs)"

fun JSON_stringify :: "JS \<Rightarrow> json \<Rightarrow> string" where
  "JSON_stringify js JNull = ''null''"
| "JSON_stringify js (JBool b) = (if b then ''true'' else ''false'')"
| "JSON_stringify js (JNumber n) =
     (case n of Finite r \<Rightarrow> NumberToString js n | _ \<Rightarrow> ''null'')"
| "JSON_stringify js (JString s) = quoted s"
| "JSON_stringify js (JArray xs) = ''['' @ commas (map (JSON_stringify js) xs) @ '']''"
| "JSON_stringify js (JObject kvs) =
     ''{'' @ commas (map (\<lambda>(k, v). quoted k @ '':'' @ JSON_stringify js v) kvs) @ ''}''"

text \<open>
  What \<open>JSON.parse\<close> reads back from the text \<open>JSON.stringify\<close> gives for a value: the
  value itself, except that a number that is not finite has been written as \<open>null\<close>.
\<close>

fun reparse :: "json \<Rightarrow> json" where
  "reparse (JNumber n) = (case n of Finite r \<Rightarrow> JNumber n | _ \<Rightarrow> JNull)"
| "reparse (JArray xs) = JArray (map reparse xs)"
| "reparse (JObject kvs) = JObject (map (\<lambda>(k, v). (k, reparse v)) kvs)"
| "reparse v = v"

subsection \<open>The typed values of the source as JSON values\<close>

definition UserRole_json :: "UserRole \<Rightarrow> json" where
  "UserRole_json r = JString (case r of Role_admin \<Rightarrow> ''admin'' | Role_user \<Rightarrow> ''user'')"

definition User_json :: "User \<Rightarrow> json" where
  "User_json u =
     obj [(''id'', Some (JString (id' u))), (''email'', Some (JString (User.email u))),
             (''name'', Some (JString (name u))), (''role'', Some (UserRole_json (User.role u))),
             (''avatar'', map_option JString (avatar u))]"

definition UserCredential_json :: "UserCredential \<Rightarrow> json" where
  "UserCredential_json u =
     obj [(''id'', Some (JString (id' u))), (''email'', Some (JString (User.email u))),
             (''password'', Some (JString (UserCredential.password u))),
             (''name'', Some (JString (name u))), (''role'', Some (UserRole_json (User.role u))),
             (''avatar'', map_option JString (avatar u))]"

section \<open>The browser's localStorage\<close>

text \<open>
  localStorage maps keys to strings. A stored string is modelled together with its
  reading by \<open>JSON.parse\<close>: \<open>Json t v\<close> is the text \<open>t\<close> that parses to the value \<open>v\<close>,
  \<open>Str s\<close> is a text on which \<open>JSON.parse\<close> throws, the empty string among them. The
  two token strings, which the source stores and reads as plain text and never parses,
  are stored as \<open>Str\<close>. Storage is unbounded: \<open>setItem\<close> never fails for lack of quota.
\<close>

datatype stored = Str string | Json string json

type_synonym localStorage = "string \<Rightarrow> stored option"

fun item_text :: "stored \<Rightarrow> string" where
  "item_text (Str s) = s"
| "item_text (Json t v) = t"

text \<open>\<open>JSON.parse\<close>: \<open>None\<close> stands for the SyntaxError it throws.\<close>

fun JSON_parse :: "stored \<Rightarrow> json option" where
  "JSON_parse (Str s) = None"
| "JSON_parse (Json t v) = Some v"

definition getItem :: "localStorage \<Rightarrow> string \<Rightarrow> string option" where
  "getItem ls k = map_option item_text (ls k)"

definition setItem :: "localStorage \<Rightarrow> string \<Rightarrow> string \<Rightarrow> localStorage" where
  "setItem ls k v = ls(k \<mapsto> Str v)"

text \<open>\<open>localStorage.setItem(k, JSON.stringify(v))\<close>.\<close>

definition setItemJSON :: "JS \<Rightarrow> localStorage \<Rightarrow> string \<Rightarrow> json \<Rightarrow> localStorage" where
  "setItemJSON js ls k v = ls(k \<mapsto> Json (JSON_stringify js v) (reparse v))"

definition removeItem :: "localStorage \<Rightarrow> string \<Rightarrow> localStorage" where
  "removeItem ls k = ls(k := None)"

section \<open>Token manager (shared/auth/token-manager.ts)\<close>

text \<open>
  Every reading of \<open>Date.now()\<close> and every draw of \<open>uuidv4()\<close> is a parameter of the
  function that makes it, so that nothing is assumed about the clock or about the
  freshness of an identifier. The metadata of a token (interface \<open>TokenMetadata\<close>:
  \<open>userId\<close>, \<open>email\<close>, \<open>role\<close>, \<open>issuedAt\<close>, \<open>expiresAt\<close>) is the object written by
  \<open>generateAccessToken\<close>; read back, it is whatever the entry parses to. The user handed
  to \<open>generateAccessToken\<close> is a JSON value too: \<open>refreshAccessToken\<close> builds it from
  properties it has read back.
\<close>

definition ACCESS_TOKEN_EXPIRY :: int where
  "ACCESS_TOKEN_EXPIRY = 15 * 60 * 1000"

definition REFRESH_TOKEN_EXPIRY :: int where
  "REFRESH_TOKEN_EXPIRY = 7 * 24 * 60 * 60 * 1000"

definition token_meta_key :: "string \<Rightarrow> string" where
  "token_meta_key token = ''token_meta_'' @ token"

definition generateAccessToken ::
  "JS \<Rightarrow> string \<Rightarrow> int \<Rightarrow> json \<Rightarrow> localStorage \<Rightarrow> string \<times> localStorage" where
  "generateAccessToken js uuid now u ls =
     (let token = uuid;
          metadata = obj [(''userId'', property u ''id''), (''email'', property u ''email''),
                             (''role'', property u ''role''),
                             (''issuedAt'', Some (JNumber (Finite (of_int now)))),
                             (''expiresAt'',
                              Some (JNumber (Finite (of_int (now + ACCESS_TOKEN_EXPIRY)))))]
      in (token, setItemJSON js ls (token_meta_key token) metadata))"

definition generateRefreshToken ::
  "JS \<Rightarrow> string \<Rightarrow> int \<Rightarrow> json \<Rightarrow> localStorage \<Rightarrow> string \<times> localStorage" where
  "generateRefreshToken js uuid now u ls =
     (let token = uuid;
          metadata = obj [(''userId'', property u ''id''), (''email'', property u ''email''),
                             (''role'', property u ''role''),
                             (''issuedAt'', Some (JNumber (Finite (of_int now)))),
                             (''expiresAt'',
                              Some (JNumber (Finite (of_int (now + REFRESH_TOKEN_EXPIRY)))))]
      in (token, setItemJSON js ls (token_meta_key token) metadata))"

definition createTokenPair ::
  "JS \<Rightarrow> string \<Rightarrow> int \<Rightarrow> string \<Rightarrow> int \<Rightarrow> json \<Rightarrow> localStorage
     \<Rightarrow> TokenPair \<times> localStorage" where
  "createTokenPair js uuid_a now_a uuid_r now_r u ls =
     (case generateAccessToken js uuid_a now_a u ls of (a, ls1) \<Rightarrow>
        (case generateRefreshToken js uuid_r now_r u ls1 of (r, ls2) \<Rightarrow>
           (\<lparr> accessToken = a, refreshToken = r \<rparr>, ls2)))"

text \<open>
  \<open>getTokenMetadata\<close>: \<open>None\<close> is the \<open>null\<close> it returns for a missing or empty entry
  and from its \<open>catch\<close>; otherwise it returns what the entry parses to, unchecked.
\<close>

definition getTokenMetadata :: "localStorage \<Rightarrow> string \<Rightarrow> json option" where
  "getTokenMetadata ls token =
     (case ls (token_meta_key token) of
        None \<Rightarrow> None
      | Some metadata \<Rightarrow>
          if item_text metadata = [] then None
          else JSON_parse metadata)"

text \<open>
  \<open>isTokenValid\<close>: the comparison \<open>Date.now() < metadata.expiresAt\<close> converts its right
  operand to a number and can raise; nothing in \<open>isTokenValid\<close> catches that.
\<close>

definition isTokenValid :: "JS \<Rightarrow> localStorage \<Rightarrow> int \<Rightarrow> string option \<Rightarrow> jserror + bool" where
  "isTokenValid js ls now token =
     (case token of
        None \<Rightarrow> Inr False
      | Some t \<Rightarrow>
          if t = [] then Inr False
          else (case getTokenMetadata ls t of
                  None \<Rightarrow> Inr False
                | Some metadata \<Rightarrow>
                    if \<not> truthy_json metadata then Inr False
                    else (case ToNumber js (property metadata ''expiresAt'') of
                            Inl e \<Rightarrow> Inl e
                          | Inr x \<Rightarrow> Inr (less_than now x))))"

definition refreshAccessToken ::
  "JS \<Rightarrow> string \<Rightarrow> int \<Rightarrow> int \<Rightarrow> localStorage \<Rightarrow> string
     \<Rightarrow> jserror + (string option \<times> localStorage)" where
  "refreshAccessToken js uuid now_check now_issue ls refreshToken' =
     (case isTokenValid js ls now_check (Some refreshToken') of
        Inl e \<Rightarrow> Inl e
      | Inr valid \<Rightarrow>
          if \<not> valid then Inr (None, ls)
          else (case getTokenMetadata ls refreshToken' of
                  None \<Rightarrow> Inr (None, ls)
                | Some metadata \<Rightarrow>
                    if \<not> truthy_json metadata then Inr (None, ls)
                    else
                      (let u = obj [(''id'', property metadata ''userId''),
                                       (''email'', property metadata ''email''),
                                       (''name'', Some (JString [])),
                                       (''role'', property metadata ''role'')]
                       in (case generateAccessToken js uuid now_issue u ls of
                             (t, ls') \<Rightarrow> Inr (Some t, ls')))))"

definition saveTokens :: "localStorage \<Rightarrow> TokenPair \<Rightarrow> localStorage" where
  "saveTokens ls pair =
     setItem (setItem ls STORAGE_KEYS_ACCESS_TOKEN (accessToken pair))
             STORAGE_KEYS_REFRESH_TOKEN (refreshToken pair)"

definition getStoredTokens :: "localStorage \<Rightarrow> TokenPair option" where
  "getStoredTokens ls =
     (case (getItem ls STORAGE_KEYS_ACCESS_TOKEN, getItem ls STORAGE_KEYS_REFRESH_TOKEN) of
        (Some a, Some r) \<Rightarrow>
          if a = [] \<or> r = [] then None else Some \<lparr> accessToken = a, refreshToken = r \<rparr>
      | _ \<Rightarrow> None)"

definition clearTokens :: "localStorage \<Rightarrow> localStorage" where
  "clearTokens ls =
     (let accessToken' = getItem ls STORAGE_KEYS_ACCESS_TOKEN;
          refreshToken' = getItem ls STORAGE_KEYS_REFRESH_TOKEN;
          ls1 = removeItem ls STORAGE_KEYS_ACCESS_TOKEN;
          ls2 = removeItem ls1 STORAGE_KEYS_REFRESH_TOKEN;
          ls3 = removeItem ls2 STORAGE_KEYS_USER_INFO;
          ls4 = (case accessToken' of
                   Some a \<Rightarrow> if a \<noteq> [] then removeItem ls3 (token_meta_key a) else ls3
                 | None \<Rightarrow> ls3)
      in (case refreshToken' of
            Some r \<Rightarrow> if r \<noteq> [] then removeItem ls4 (token_meta_key r) else ls4
          | None \<Rightarrow> ls4))"

section \<open>User service (shared/auth/user-service.ts)\<close>

text \<open>
  The directory \<open>/mock-data/auth.json\<close> is fetched over HTTP. What the fetch gives is a
  parameter: \<open>Some users\<close> for the list in the file, \<open>None\<close> when the fetch or the
  reading of its body throws. The edited records under \<open>custom_users\<close> are read back
  from storage, so they are JSON values, and so are the merged records.
\<close>

definition CUSTOM_USERS_KEY :: string where
  "CUSTOM_USERS_KEY = ''custom_users''"

record ChangePasswordParams =
  currentPassword :: string
  newPassword :: string

definition getCustomUsers :: "localStorage \<Rightarrow> json" where
  "getCustomUsers ls =
     (case ls CUSTOM_USERS_KEY of
        None \<Rightarrow> JArray []
      | Some c \<Rightarrow>
          if item_text c = [] then JArray []
          else (case JSON_parse c of Some v \<Rightarrow> v | None \<Rightarrow> JArray []))"

definition saveCustomUsers :: "JS \<Rightarrow> localStorage \<Rightarrow> json \<Rightarrow> localStorage" where
  "saveCustomUsers js ls users = setItemJSON js ls CUSTOM_USERS_KEY users"

text \<open>
  The callback \<open>(u) => u.id === x\<close>: reading a property of \<open>null\<close> raises a TypeError;
  \<open>===\<close> with a string holds for that very string only.
\<close>

fun has_id :: "string \<Rightarrow> json \<Rightarrow> jserror + bool" where
  "has_id x JNull = Inl TypeError"
| "has_id x u = Inr (property u ''id'' = Some (JString x))"

text \<open>
  \<open>Array.prototype.find\<close>, \<open>findIndex\<close> and \<open>map\<close> with a callback that can raise: the
  elements are visited in order and the first error ends the call.
\<close>

fun js_find :: "('a \<Rightarrow> jserror + bool) \<Rightarrow> 'a list \<Rightarrow> jserror + 'a option" where
  "js_find P [] = Inr None"
| "js_find P (x # xs) =
     (case P x of
        Inl e \<Rightarrow> Inl e
      | Inr found \<Rightarrow> if found then Inr (Some x) else js_find P xs)"

fun js_findIndex :: "('a \<Rightarrow> jserror + bool) \<Rightarrow> 'a list \<Rightarrow> jserror + nat option" where
  "js_findIndex P [] = Inr None"
| "js_findIndex P (x # xs) =
     (case P x of
        Inl e \<Rightarrow> Inl e
      | Inr found \<Rightarrow>
          if found then Inr (Some 0)
          else (case js_findIndex P xs of
                  Inl e \<Rightarrow> Inl e
                | Inr i \<Rightarrow> Inr (map_option Suc i)))"

fun js_map :: "('a \<Rightarrow> jserror + 'b) \<Rightarrow> 'a list \<Rightarrow> jserror + 'b list" where
  "js_map f [] = Inr []"
| "js_map f (x # xs) =
     (case f x of
        Inl e \<Rightarrow> Inl e
      | Inr y \<Rightarrow> (case js_map f xs of Inl e \<Rightarrow> Inl e | Inr ys \<Rightarrow> Inr (y # ys)))"

text \<open>
  \<open>getAllUsers\<close>: calling \<open>find\<close> on a value that is not an array raises a TypeError;
  the \<open>catch\<close> turns every error into the empty list. A record found by \<open>has_id\<close> is
  an object, so \<open>customUser || mockUser\<close> is that record.
\<close>

definition getAllUsers :: "UserCredential list option \<Rightarrow> localStorage \<Rightarrow> json list" where
  "getAllUsers fetched ls =
     (case fetched of
        None \<Rightarrow> []
      | Some mockUsers \<Rightarrow>
          (let customUsers = getCustomUsers ls
           in (case js_map (\<lambda>mockUser.
                         case customUsers of
                           JArray cs \<Rightarrow>
                             (case js_find (has_id (id' mockUser)) cs of
                                Inl e \<Rightarrow> Inl e
                              | Inr (Some customUser) \<Rightarrow> Inr customUser
                              | Inr None \<Rightarrow> Inr (UserCredential_json mockUser))
                         | _ \<Rightarrow> Inl TypeError) mockUsers of
                 Inl e \<Rightarrow> []
               | Inr merged \<Rightarrow> merged)))"

definition getUserById ::
  "UserCredential list option \<Rightarrow> localStorage \<Rightarrow> string \<Rightarrow> jserror + json option" where
  "getUserById fetched ls uid = js_find (has_id uid) (getAllUsers fetched ls)"

fun show_nat :: "nat \<Rightarrow> string" where
  "show_nat n =
     (if n < 10 then [char_of (48 + n)]
      else show_nat (n div 10) @ [char_of (48 + n mod 10)])"

declare show_nat.simps [simp del]

text \<open>
  The own properties that \<open>{...v}\<close> copies: those of an object, the indexed elements of
  an array or of a string, none of another primitive.
\<close>

fun own_properties :: "json \<Rightarrow> (string \<times> json) list" where
  "own_properties (JObject kvs) = kvs"
| "own_properties (JArray xs) = zip (map show_nat [0..<length xs]) xs"
| "own_properties (JString s) = zip (map show_nat [0..<length s]) (map (\<lambda>c. JString [c]) s)"
| "own_properties _ = []"

text \<open>
  The messages of the source are Korean sentences; each is represented by an English
  rendering, one constant per message.
\<close>

definition MSG_USER_NOT_FOUND :: string where
  "MSG_USER_NOT_FOUND = ''user not found''"

definition MSG_INVALID_PASSWORD :: string where
  "MSG_INVALID_PASSWORD = ''current password is incorrect''"

definition MSG_WEAK_PASSWORD :: string where
  "MSG_WEAK_PASSWORD = ''password must have at least 4 characters''"

definition MSG_SAME_PASSWORD :: string where
  "MSG_SAME_PASSWORD = ''new password equals the current password''"

definition MSG_PASSWORD_CHANGE_FAILED :: string where
  "MSG_PASSWORD_CHANGE_FAILED = ''the password change failed''"

text \<open>
  \<open>changePassword\<close>: every error raised inside its \<open>try\<close> (before anything is written)
  is answered with \<open>UPDATE_FAILED\<close>.
\<close>

definition changePassword ::
  "JS \<Rightarrow> UserCredential list option \<Rightarrow> localStorage \<Rightarrow> string \<Rightarrow> ChangePasswordParams
     \<Rightarrow> AuthError option \<times> localStorage" where
  "changePassword js fetched ls uid params =
     (let failed = (Some \<lparr> code = UPDATE_FAILED, message = MSG_PASSWORD_CHANGE_FAILED \<rparr>, ls)
      in (case getUserById fetched ls uid of
            Inl e \<Rightarrow> failed
          | Inr None \<Rightarrow> (Some \<lparr> code = USER_NOT_FOUND, message = MSG_USER_NOT_FOUND \<rparr>, ls)
          | Inr (Some currentUser) \<Rightarrow>
              if property currentUser ''password'' \<noteq> Some (JString (currentPassword params))
              then (Some \<lparr> code = INVALID_PASSWORD, message = MSG_INVALID_PASSWORD \<rparr>, ls)
              else if length (newPassword params) < 4
              then (Some \<lparr> code = WEAK_PASSWORD, message = MSG_WEAK_PASSWORD \<rparr>, ls)
              else if currentPassword params = newPassword params
              then (Some \<lparr> code = SAME_PASSWORD, message = MSG_SAME_PASSWORD \<rparr>, ls)
              else
                (let updatedUser = JObject (set_prop (own_properties currentUser) ''password''
                                              (JString (newPassword params)))
                 in (case getCustomUsers ls of
                       JArray customUsers \<Rightarrow>
                         (case js_findIndex (has_id uid) customUsers of
                            Inl e \<Rightarrow> failed
                          | Inr (Some existingIndex) \<Rightarrow>
                              (None, saveCustomUsers js ls
                                       (JArray (customUsers[existingIndex := updatedUser])))
                          | Inr None \<Rightarrow>
                              (None, saveCustomUsers js ls
                                       (JArray (customUsers @ [updatedUser]))))
                     | _ \<Rightarrow> failed))))"

record LoginExample =
  label :: string
  email :: "json option"
  password :: "json option"

definition getLoginExamples ::
  "UserCredential list option \<Rightarrow> localStorage \<Rightarrow> LoginExample list" where
  "getLoginExamples fetched ls =
     map (\<lambda>u. \<lparr> label = (if property u ''role'' = Some (JString ''admin'')
                         then ''admin'' else ''user''),
                LoginExample.email = property u ''email'',
                LoginExample.password = property u ''password'' \<rparr>)
         (getAllUsers fetched ls)"

section \<open>Auth slice (shared/store/slices/auth-slice.ts)\<close>

text \<open>
  The user held in the state and carried by the actions is the object that \<open>login\<close>
  built or that \<open>getSession\<close> parsed from storage: a JSON value.
\<close>

record Session =
  user :: json
  accessToken :: string

record AuthState =
  user :: "json option"
  accessToken :: "string option"
  isAuthenticated :: bool
  loading :: bool
  error :: "string option"

definition initialState :: AuthState where
  "initialState =
     \<lparr> AuthState.user = None, AuthState.accessToken = None, isAuthenticated = False,
       loading = False, error = None \<rparr>"

definition MSG_LOGIN_FAILED :: string where
  "MSG_LOGIN_FAILED = ''login failed''"

definition MSG_SESSION_RESTORE_FAILED :: string where
  "MSG_SESSION_RESTORE_FAILED = ''the session cannot be restored''"

definition MSG_REFRESH_FAILED :: string where
  "MSG_REFRESH_FAILED = ''token refresh failed''"

definition MSG_PROFILE_FAILED :: string where
  "MSG_PROFILE_FAILED = ''profile update failed''"

definition MSG_PASSWORD_FAILED :: string where
  "MSG_PASSWORD_FAILED = ''password change failed''"

text \<open>
  The actions the slice's reducer handles. A rejected action carries the value given to
  \<open>rejectWithValue\<close>, or nothing.
\<close>

datatype action =
    clearError
  | setAccessToken string
  | clearAuth
  | loginThunk_pending
  | loginThunk_fulfilled Session
  | loginThunk_rejected "string option"
  | getSessionThunk_pending
  | getSessionThunk_fulfilled Session
  | getSessionThunk_rejected "string option"
  | logoutThunk_pending
  | logoutThunk_fulfilled
  | logoutThunk_rejected "string option"
  | refreshTokenThunk_pending
  | refreshTokenThunk_fulfilled string
  | refreshTokenThunk_rejected "string option"
  | updateProfileThunk_pending
  | updateProfileThunk_fulfilled json
  | updateProfileThunk_rejected "string option"
  | changePasswordThunk_pending
  | changePasswordThunk_fulfilled
  | changePasswordThunk_rejected "string option"

text \<open>\<open>payload || fallback\<close>: an absent or empty payload gives the fallback.\<close>

definition or_default :: "string option \<Rightarrow> string \<Rightarrow> string" where
  "or_default payload fallback =
     (case payload of None \<Rightarrow> fallback | Some m \<Rightarrow> if m = [] then fallback else m)"

fun authReducer :: "AuthState \<Rightarrow> action \<Rightarrow> AuthState" where
  "authReducer st clearError = st\<lparr> error := None \<rparr>"
| "authReducer st (setAccessToken t) = st\<lparr> AuthState.accessToken := Some t \<rparr>"
| "authReducer st clearAuth =
     st\<lparr> AuthState.user := None, AuthState.accessToken := None, isAuthenticated := False,
         loading := False, error := None \<rparr>"
| "authReducer st loginThunk_pending = st\<lparr> loading := True, error := None \<rparr>"
| "authReducer st (loginThunk_fulfilled p) =
     st\<lparr> loading := False, AuthState.user := Some (Session.user p),
         AuthState.accessToken := Some (Session.accessToken p), isAuthenticated := True,
         error := None \<rparr>"
| "authReducer st (loginThunk_rejected payload) =
     st\<lparr> loading := False, error := Some (or_default payload MSG_LOGIN_FAILED),
         isAuthenticated := False \<rparr>"
| "authReducer st getSessionThunk_pending = st\<lparr> loading := True, error := None \<rparr>"
| "authReducer st (getSessionThunk_fulfilled p) =
     st\<lparr> loading := False, AuthState.user := Some (Session.user p),
         AuthState.accessToken := Some (Session.accessToken p), isAuthenticated := True,
         error := None \<rparr>"
| "authReducer st (getSessionThunk_rejected payload) =
     st\<lparr> loading := False, error := None, isAuthenticated := False \<rparr>"
| "authReducer st logoutThunk_fulfilled =
     st\<lparr> AuthState.user := None, AuthState.accessToken := None, isAuthenticated := False,
         loading := False, error := None \<rparr>"
| "authReducer st (refreshTokenThunk_fulfilled t) = st\<lparr> AuthState.accessToken := Some t \<rparr>"
| "authReducer st (refreshTokenThunk_rejected payload) =
     st\<lparr> error := Some (or_default payload MSG_REFRESH_FAILED), isAuthenticated := False \<rparr>"
| "authReducer st updateProfileThunk_pending = st\<lparr> loading := True, error := None \<rparr>"
| "authReducer st (updateProfileThunk_fulfilled u) =
     st\<lparr> loading := False, AuthState.user := Some u, error := None \<rparr>"
| "authReducer st (updateProfileThunk_rejected payload) =
     st\<lparr> loading := False, error := Some (or_default payload MSG_PROFILE_FAILED) \<rparr>"
| "authReducer st changePasswordThunk_pending = st\<lparr> loading := True, error := None \<rparr>"
| "authReducer st changePasswordThunk_fulfilled = st\<lparr> loading := False, error := None \<rparr>"
| "authReducer st (changePasswordThunk_rejected payload) =
     st\<lparr> loading := False, error := Some (or_default payload MSG_PASSWORD_FAILED) \<rparr>"
| "authReducer st logoutThunk_pending = st"
| "authReducer st (logoutThunk_rejected payload) = st"
| "authReducer st refreshTokenThunk_pending = st"

section \<open>Auth service (shared/auth/auth-service.ts)\<close>

definition MSG_INVALID_CREDENTIALS :: string where
  "MSG_INVALID_CREDENTIALS = ''email or password is incorrect''"

definition MSG_LOGIN_ERROR :: string where
  "MSG_LOGIN_ERROR = ''an error occurred while logging in''"

definition MSG_NO_SESSION :: string where
  "MSG_NO_SESSION = ''no stored session''"

definition MSG_SESSION_EXPIRED :: string where
  "MSG_SESSION_EXPIRED = ''the session has expired, log in again''"

definition MSG_NO_USER_INFO :: string where
  "MSG_NO_USER_INFO = ''user information not found''"

definition MSG_SESSION_ERROR :: string where
  "MSG_SESSION_ERROR = ''an error occurred while restoring the session''"

text \<open>
  \<open>login\<close> reads the directory file itself and searches the fetched list; \<open>None\<close> for
  the fetch is the exception its \<open>catch\<close> turns into \<open>TOKEN_INVALID\<close>.
\<close>

definition login ::
  "JS \<Rightarrow> string \<Rightarrow> int \<Rightarrow> string \<Rightarrow> int \<Rightarrow> UserCredential list option \<Rightarrow> LoginCredentials
     \<Rightarrow> localStorage \<Rightarrow> (AuthError + LoginResponse) \<times> localStorage" where
  "login js uuid_a now_a uuid_r now_r fetched credentials ls =
     (case fetched of
        None \<Rightarrow> (Inl \<lparr> code = TOKEN_INVALID, message = MSG_LOGIN_ERROR \<rparr>, ls)
      | Some users \<Rightarrow>
          (case find (\<lambda>u. User.email u = LoginCredentials.email credentials
                          \<and> UserCredential.password u = LoginCredentials.password credentials)
                     users of
             None \<Rightarrow> (Inl \<lparr> code = INVALID_CREDENTIALS, message = MSG_INVALID_CREDENTIALS \<rparr>, ls)
           | Some found \<Rightarrow>
               (let userInfo = \<lparr> id' = id' found, User.email = User.email found,
                                 name = name found, User.role = User.role found,
                                 avatar = avatar found \<rparr>
                in (case createTokenPair js uuid_a now_a uuid_r now_r (User_json userInfo) ls of
                      (pair, ls1) \<Rightarrow>
                        (let ls2 = saveTokens ls1 pair;
                             ls3 = setItemJSON js ls2 STORAGE_KEYS_USER_INFO (User_json userInfo)
                         in (Inr \<lparr> LoginResponse.user = userInfo, tokens = pair \<rparr>, ls3))))))"

text \<open>
  \<open>getSession\<close>. The readings of the clock are: \<open>now_a\<close> for the check of the access
  token, \<open>now_check\<close> and \<open>now_issue\<close> inside \<open>refreshAccessToken\<close>. The test
  \<open>!newAccessToken\<close> also holds for an empty string. Everything runs inside one \<open>try\<close>:
  \<open>caught\<close> is its \<open>catch\<close>, which clears the tokens and reports \<open>TOKEN_INVALID\<close>, for
  an error raised by a validity check and for the SyntaxError of \<open>JSON.parse\<close> on the
  stored user. \<open>restore\<close> is the last step, which returns whatever the stored user
  parses to.
\<close>

definition getSession ::
  "JS \<Rightarrow> int \<Rightarrow> string \<Rightarrow> int \<Rightarrow> int \<Rightarrow> localStorage
     \<Rightarrow> (AuthError + Session) \<times> localStorage" where
  "getSession js now_a uuid now_check now_issue ls =
     (case getStoredTokens ls of
        None \<Rightarrow> (Inl \<lparr> code = SESSION_NOT_FOUND, message = MSG_NO_SESSION \<rparr>, ls)
      | Some pair \<Rightarrow>
          (let refreshToken' = TokenPair.refreshToken pair;
               caught = (\<lambda>ls'. (Inl \<lparr> code = TOKEN_INVALID, message = MSG_SESSION_ERROR \<rparr>,
                                 clearTokens ls'));
               restore = (\<lambda>accessToken' ls2.
                  case ls2 STORAGE_KEYS_USER_INFO of
                    None \<Rightarrow> (Inl \<lparr> code = SESSION_NOT_FOUND, message = MSG_NO_USER_INFO \<rparr>, ls2)
                  | Some userInfoStr \<Rightarrow>
                      if item_text userInfoStr = []
                      then (Inl \<lparr> code = SESSION_NOT_FOUND, message = MSG_NO_USER_INFO \<rparr>, ls2)
                      else (case JSON_parse userInfoStr of
                              None \<Rightarrow> caught ls2
                            | Some u \<Rightarrow>
                                (Inr \<lparr> Session.user = u, Session.accessToken = accessToken' \<rparr>,
                                 ls2)))
           in (case isTokenValid js ls now_a (Some (TokenPair.accessToken pair)) of
                 Inl e \<Rightarrow> caught ls
               | Inr valid \<Rightarrow>
                   if valid then restore (TokenPair.accessToken pair) ls
                   else
                     (case refreshAccessToken js uuid now_check now_issue ls refreshToken' of
                        Inl e \<Rightarrow> caught ls
                      | Inr (None, ls1) \<Rightarrow>
                          (Inl \<lparr> code = TOKEN_EXPIRED, message = MSG_SESSION_EXPIRED \<rparr>,
                           clearTokens ls1)
                      | Inr (Some newAccessToken, ls1) \<Rightarrow>
                          if newAccessToken = []
                          then (Inl \<lparr> code = TOKEN_EXPIRED, message = MSG_SESSION_EXPIRED \<rparr>,
                                clearTokens ls1)
                          else restore newAccessToken
                                 (saveTokens ls1
                                    \<lparr> TokenPair.accessToken = newAccessToken,
                                      TokenPair.refreshToken = refreshToken' \<rparr>)))))"

text \<open>
  \<open>logout\<close>: \<open>clearTokens\<close> only reads and removes entries, which raises nothing, so the
  \<open>catch\<close> branch of the source has no counterpart.
\<close>

definition logout :: "localStorage \<Rightarrow> AuthError option \<times> localStorage" where
  "logout ls = (None, clearTokens ls)"

text \<open>
  \<open>isAuthenticated\<close>: \<open>a || b\<close> evaluates \<open>b\<close> only when \<open>a\<close> is false; an error raised
  by either check leaves the function.
\<close>

definition isAuthenticated :: "JS \<Rightarrow> int \<Rightarrow> int \<Rightarrow> localStorage \<Rightarrow> jserror + bool" where
  "isAuthenticated js now_a now_r ls =
     (case getStoredTokens ls of
        None \<Rightarrow> Inr False
      | Some pair \<Rightarrow>
          (case isTokenValid js ls now_a (Some (TokenPair.accessToken pair)) of
             Inl e \<Rightarrow> Inl e
           | Inr valid \<Rightarrow>
               if valid then Inr True
               else isTokenValid js ls now_r (Some (TokenPair.refreshToken pair))))"

section \<open>The thunks of the auth slice\<close>

text \<open>
  A thunk dispatches its pending action, runs the service call, then dispatches the
  fulfilled or the rejected action.
\<close>

definition getSessionThunk ::
  "JS \<Rightarrow> int \<Rightarrow> string \<Rightarrow> int \<Rightarrow> int \<Rightarrow> localStorage \<Rightarrow> AuthState
     \<Rightarrow> AuthState \<times> localStorage" where
  "getSessionThunk js now_a uuid now_check now_issue ls st =
     (let st1 = authReducer st getSessionThunk_pending
      in (case getSession js now_a uuid now_check now_issue ls of
            (Inl e, ls') \<Rightarrow>
              (authReducer st1
                 (getSessionThunk_rejected
                    (Some (or_default (Some (message e)) MSG_SESSION_RESTORE_FAILED))), ls')
          | (Inr d, ls') \<Rightarrow> (authReducer st1 (getSessionThunk_fulfilled d), ls')))"

definition loginThunk ::
  "JS \<Rightarrow> string \<Rightarrow> int \<Rightarrow> string \<Rightarrow> int \<Rightarrow> UserCredential list option \<Rightarrow> LoginCredentials
     \<Rightarrow> localStorage \<Rightarrow> AuthState \<Rightarrow> AuthState \<times> localStorage" where
  "loginThunk js uuid_a now_a uuid_r now_r fetched credentials ls st =
     (let st1 = authReducer st loginThunk_pending
      in (case login js uuid_a now_a uuid_r now_r fetched credentials ls of
            (Inl e, ls') \<Rightarrow>
              (authReducer st1
                 (loginThunk_rejected (Some (or_default (Some (message e)) MSG_LOGIN_FAILED))),
               ls')
          | (Inr d, ls') \<Rightarrow>
              (authReducer st1
                 (loginThunk_fulfilled
                    \<lparr> Session.user = User_json (LoginResponse.user d),
                      Session.accessToken = TokenPair.accessToken (tokens d) \<rparr>), ls')))"

definition logoutThunk :: "localStorage \<Rightarrow> AuthState \<Rightarrow> AuthState \<times> localStorage" where
  "logoutThunk ls st =
     (let st1 = authReducer st logoutThunk_pending
      in (case logout ls of
            (Some e, ls') \<Rightarrow> (authReducer st1 (logoutThunk_rejected (Some (message e))), ls')
          | (None, ls') \<Rightarrow> (authReducer st1 logoutThunk_fulfilled, ls')))"

section \<open>Request pipeline (shared/api/axios-instance.ts)\<close>

text \<open>
  A request configuration carries its headers and the flag \<open>_isRetry\<close> that the response
  interceptor adds (absent reads as false). axios hands the configuration of a request,
  with the fields the caller added to it, to the error of that request.
\<close>

record Headers =
  Authorization :: "string option"
  X_Request_ID :: "string option"

record RequestConfig =
  url :: string
  headers :: Headers
  isRetry :: bool

record AxiosResponse =
  status :: nat
  data :: string

record AxiosError =
  config :: "RequestConfig option"
  response :: "AxiosResponse option"
  message :: string
  code :: "string option"

text \<open>
  What the network gives for a transmitted request: a response with a status, or no
  response at all (a network failure or a timeout, with axios's message and code).
\<close>

datatype reply = Reply AxiosResponse | NoReply string "string option"

text \<open>
  axios settles a response: a status from 200 to 299 resolves, and so does a status that
  is zero; any other rejects.
\<close>

definition settle :: "RequestConfig \<Rightarrow> reply \<Rightarrow> AxiosError + AxiosResponse" where
  "settle cfg r =
     (case r of
        Reply resp \<Rightarrow>
          if status resp = 0 \<or> (200 \<le> status resp \<and> status resp < 300) then Inr resp
          else Inl \<lparr> config = Some cfg, response = Some resp,
                     AxiosError.message = ''Request failed with status code '' @ show_nat (status resp),
                     AxiosError.code = (if 400 \<le> status resp \<and> status resp < 500
                                        then Some ''ERR_BAD_REQUEST''
                                        else if 500 \<le> status resp \<and> status resp < 600
                                        then Some ''ERR_BAD_RESPONSE'' else None) \<rparr>
      | NoReply msg c \<Rightarrow>
          Inl \<lparr> config = Some cfg, response = None, AxiosError.message = msg,
                AxiosError.code = c \<rparr>)"

text \<open>
  The browser as the pipeline sees it: localStorage, the Redux store's auth state, the
  address of the window, and the requests transmitted so far.
\<close>

record Browser =
  localStorage :: localStorage
  store :: AuthState
  location_href :: string
  sent :: "RequestConfig list"

text \<open>
  The surroundings of one logical request: the network's answer to the n-th transmission,
  the identifier drawn for it, the engine's conversions, and the readings of the clock
  and the identifier drawn during the renewal.
\<close>

record Env =
  engine :: JS
  transport :: "nat \<Rightarrow> RequestConfig \<Rightarrow> reply"
  requestId :: "nat \<Rightarrow> string"
  clock_valid :: int
  clock_check :: int
  clock_issue :: int
  uuidv4 :: string

definition truthy :: "string option \<Rightarrow> bool" where
  "truthy t = (case t of None \<Rightarrow> False | Some s \<Rightarrow> s \<noteq> [])"

definition requestInterceptor :: "string \<Rightarrow> Browser \<Rightarrow> RequestConfig \<Rightarrow> RequestConfig" where
  "requestInterceptor rid b cfg =
     (let token0 = AuthState.accessToken (store b);
          token = (if \<not> truthy token0 then
                     (case getStoredTokens (localStorage b) of
                        Some pair \<Rightarrow>
                          if TokenPair.accessToken pair = [] then None
                          else Some (TokenPair.accessToken pair)
                      | None \<Rightarrow> None)
                   else token0);
          cfg1 = (case token of
                    Some t \<Rightarrow>
                      if t \<noteq> []
                      then cfg\<lparr> headers := (headers cfg)\<lparr> Authorization := Some (''Bearer '' @ t) \<rparr> \<rparr>
                      else cfg
                  | None \<Rightarrow> cfg)
      in cfg1\<lparr> headers := (headers cfg1)\<lparr> X_Request_ID := Some rid \<rparr> \<rparr>)"

text \<open>
  The \<open>try\<close> block of the response interceptor up to the saving of the tokens: \<open>None\<close>
  is one of its three \<open>throw\<close>s or an error raised by a validity check, all of which
  its \<open>catch\<close> receives. The storage is returned in both cases.
\<close>

definition tryRefresh :: "Env \<Rightarrow> localStorage \<Rightarrow> string option \<times> localStorage" where
  "tryRefresh env ls =
     (case getStoredTokens ls of
        None \<Rightarrow> (None, ls)
      | Some pair \<Rightarrow>
          if TokenPair.refreshToken pair = [] then (None, ls)
          else (case isTokenValid (engine env) ls (clock_valid env)
                       (Some (TokenPair.refreshToken pair)) of
                  Inl e \<Rightarrow> (None, ls)
                | Inr valid \<Rightarrow>
                    if \<not> valid then (None, ls)
                    else (case refreshAccessToken (engine env) (uuidv4 env) (clock_check env)
                                 (clock_issue env) ls (TokenPair.refreshToken pair) of
                            Inl e \<Rightarrow> (None, ls)
                          | Inr (None, ls1) \<Rightarrow> (None, ls1)
                          | Inr (Some newAccessToken, ls1) \<Rightarrow>
                              if newAccessToken = [] then (None, ls1)
                              else (Some newAccessToken,
                                    saveTokens ls1
                                      \<lparr> TokenPair.accessToken = newAccessToken,
                                        TokenPair.refreshToken = TokenPair.refreshToken pair \<rparr>))))"

text \<open>
  \<open>axiosInstance\<close> runs the request interceptor, transmits, and runs the response
  interceptor on the answer. The response interceptor calls \<open>axiosInstance\<close> again for
  the resend; the resend's own failure is returned as it is (the source returns the
  promise without awaiting it, so its \<open>catch\<close> does not see that failure).
\<close>

function axiosInstance ::
  "Env \<Rightarrow> RequestConfig \<Rightarrow> Browser \<Rightarrow> (AxiosError + AxiosResponse) \<times> Browser" where
  "axiosInstance env cfg0 b0 =
     (let n = length (sent b0);
          cfg = requestInterceptor (requestId env n) b0 cfg0;
          b = b0\<lparr> sent := sent b0 @ [cfg] \<rparr>
      in (case settle cfg (transport env n cfg) of
            Inr resp \<Rightarrow> (Inr resp, b)
          | Inl err \<Rightarrow>
              (case config err of
                 None \<Rightarrow> (Inl err, b)
               | Some originalRequest \<Rightarrow>
                   if map_option status (response err) = Some 401 \<and> \<not> isRetry originalRequest
                   then
                     (let retried = originalRequest\<lparr> isRetry := True \<rparr>
                      in (case tryRefresh env (localStorage b) of
                            (None, ls') \<Rightarrow>
                              (Inl (err\<lparr> config := Some retried \<rparr>),
                               b\<lparr> localStorage := ls',
                                  store := authReducer (store b) clearAuth,
                                  location_href := ''/login'' \<rparr>)
                          | (Some newAccessToken, ls') \<Rightarrow>
                              axiosInstance env
                                (retried\<lparr> headers := (headers retried)
                                    \<lparr> Authorization := Some (''Bearer '' @ newAccessToken) \<rparr> \<rparr>)
                                (b\<lparr> localStorage := ls',
                                   store := authReducer (store b)
                                              (setAccessToken newAccessToken) \<rparr>)))
                   else (Inl err, b))))"
  by pat_completeness auto

termination axiosInstance
proof (relation "measure (\<lambda>(env, cfg, b). if isRetry cfg then 0 else 1)", goal_cases)
  case 1
  show ?case by simp
next
  case (2 env cfg0 b0 n cfg b err originalRequest retried renewal ls' newAccessToken)
  have keeps: "isRetry (requestInterceptor rid br c) = isRetry c" for rid br c
    by (simp add: requestInterceptor_def Let_def split: option.splits)
  have "config err = Some cfg"
    using 2(4) by (auto simp: settle_def split: reply.splits if_splits)
  with 2(5) have "originalRequest = cfg"
    by simp
  with 2(2) 2(6) have "\<not> isRetry cfg0"
    by (simp add: keeps)
  with 2(7) show ?case by simp
qed

declare axiosInstance.simps [simp del]

section \<open>Example states\<close>

definition show_int :: "int \<Rightarrow> string" where
  "show_int i = (if i < 0 then CHR ''-'' # show_nat (nat (- i)) else show_nat (nat i))"

text \<open>
  An engine for the examples: it gives a whole number its decimal text, and reads no
  string or array as a number (none of the examples compares one with the clock).
\<close>

definition example_js :: JS where
  "example_js =
     \<lparr> numeric = (\<lambda>v. None),
       NumberToString = (\<lambda>n. case n of Finite r \<Rightarrow> show_int \<lfloor>r\<rfloor> | _ \<Rightarrow> ''Infinity'') \<rparr>"

text \<open>The entry that \<open>setItem(k, JSON.stringify(v))\<close> leaves under a key.\<close>

definition written :: "json \<Rightarrow> stored" where
  "written v = Json (JSON_stringify example_js v) (reparse v)"

text \<open>
  A directory with two accounts, and the storage as a login of the first account at
  time 0 leaves it (tokens \<open>A\<close> and \<open>R\<close>), next to entries that do not belong to that
  session.
\<close>

definition example_directory :: "UserCredential list" where
  "example_directory =
     [\<lparr> id' = ''1'', User.email = ''admin@example.com'', name = ''Admin'',
        User.role = Role_admin, avatar = None, UserCredential.password = ''admin123'' \<rparr>,
      \<lparr> id' = ''2'', User.email = ''user@example.com'', name = ''User'',
        User.role = Role_user, avatar = None, UserCredential.password = ''user123'' \<rparr>]"

definition example_admin :: User where
  "example_admin =
     \<lparr> id' = ''1'', User.email = ''admin@example.com'', name = ''Admin'',
       User.role = Role_admin, avatar = None \<rparr>"

definition example_access_meta :: json where
  "example_access_meta =
     JObject [(''userId'', JString ''1''), (''email'', JString ''admin@example.com''),
              (''role'', JString ''admin''), (''issuedAt'', JNumber (Finite 0)),
              (''expiresAt'', JNumber (Finite 900000))]"

definition example_refresh_meta :: json where
  "example_refresh_meta =
     JObject [(''userId'', JString ''1''), (''email'', JString ''admin@example.com''),
              (''role'', JString ''admin''), (''issuedAt'', JNumber (Finite 0)),
              (''expiresAt'', JNumber (Finite 604800000))]"

definition example_tokens :: localStorage where
  "example_tokens =
     [''accessToken'' \<mapsto> Str ''A'', ''refreshToken'' \<mapsto> Str ''R'',
      ''token_meta_A'' \<mapsto> written example_access_meta,
      ''token_meta_R'' \<mapsto> written example_refresh_meta]"

definition example_session :: localStorage where
  "example_session = example_tokens(''userInfo'' \<mapsto> written (User_json example_admin))"

definition example_storage :: localStorage where
  "example_storage =
     example_session(''app_settings'' \<mapsto> written (JObject [(''theme'', JString ''dark'')]),
                     ''custom_users'' \<mapsto> written (JArray []),
                     ''token_meta_Z'' \<mapsto> written example_access_meta)"



text \<open>
  A storage that has been edited by hand: the entry of token \<open>P\<close> is the text
  \<open>{"expiresAt":5000}\<close>, with no other field; the entry of the access token \<open>X\<close> is
  \<open>{"expiresAt":{"toString":1}}\<close>; the refresh token \<open>R\<close> has the entry a login wrote.
\<close>

definition example_tampered :: localStorage where
  "example_tampered =
     [''accessToken'' \<mapsto> Str ''X'', ''refreshToken'' \<mapsto> Str ''R'',
      ''token_meta_P'' \<mapsto> written (JObject [(''expiresAt'', JNumber (Finite 5000))]),
      ''token_meta_X'' \<mapsto>
         written (JObject [(''expiresAt'', JObject [(''toString'', JNumber (Finite 1))])]),
      ''token_meta_R'' \<mapsto> written example_refresh_meta]"

text \<open>
  The storage after the first account has changed its password from \<open>admin123\<close> to
  \<open>admin456\<close>, starting from an empty storage.
\<close>

definition example_password_change :: ChangePasswordParams where
  "example_password_change = \<lparr> currentPassword = ''admin123'', newPassword = ''admin456'' \<rparr>"

definition example_after_change :: localStorage where
  "example_after_change =
     snd (changePassword example_js (Some example_directory) Map.empty ''1''
            example_password_change)"

text \<open>
  A network that answers every transmission with status 401, a request that has not been
  sent yet, and a browser that holds the example session (the store has not been filled).
\<close>

definition example_env :: Env where
  "example_env =
     \<lparr> engine = example_js,
       transport = (\<lambda>n c. Reply \<lparr> status = 401, data = [] \<rparr>),
       requestId = (\<lambda>n. ''request-'' @ show_nat n),
       clock_valid = 1000000, clock_check = 1000001, clock_issue = 1000002,
       uuidv4 = ''N'' \<rparr>"

definition example_request :: RequestConfig where
  "example_request =
     \<lparr> url = ''/mock-data/posts.json'',
       headers = \<lparr> Authorization = None, X_Request_ID = None \<rparr>,
       isRetry = False \<rparr>"

definition example_browser :: Browser where
  "example_browser =
     \<lparr> localStorage = example_session, store = initialState, location_href = ''/'',
       sent = [] \<rparr>"

section \<open>Facts about the storage\<close>

lemma JSON_stringify_nonempty [simp]:
  "JSON_stringify js (JObject kvs) \<noteq> []"
  "JSON_stringify js (JArray xs) \<noteq> []"
  by simp_all

lemma written_nonempty [simp]:
  "item_text (written (JObject kvs)) \<noteq> []"
  "item_text (written (JArray xs)) \<noteq> []"
  "JSON_parse (written v) = Some (reparse v)"
  by (simp_all add: written_def)

lemma reparse_typed [simp]:
  "reparse (User_json u) = User_json u"
  "reparse (UserCredential_json c) = UserCredential_json c"
  by (cases "avatar u"; cases "avatar c";
      simp add: User_json_def UserCredential_json_def UserRole_json_def List.map_filter_simps)+

lemma getTokenMetadata_Some_iff:
  "getTokenMetadata ls T = Some v \<longleftrightarrow> (\<exists>t. ls (token_meta_key T) = Some (Json t v) \<and> t \<noteq> [])"
proof (cases "ls (token_meta_key T)")
  case None
  then show ?thesis by (simp add: getTokenMetadata_def)
next
  case (Some c)
  then show ?thesis
    by (cases c) (auto simp: getTokenMetadata_def)
qed

lemma token_meta_key_neq [simp]:
  "token_meta_key t \<noteq> STORAGE_KEYS_ACCESS_TOKEN"
  "token_meta_key t \<noteq> STORAGE_KEYS_REFRESH_TOKEN"
  "token_meta_key t \<noteq> STORAGE_KEYS_USER_INFO"
  "token_meta_key t \<noteq> CUSTOM_USERS_KEY"
  "STORAGE_KEYS_ACCESS_TOKEN \<noteq> token_meta_key t"
  "STORAGE_KEYS_REFRESH_TOKEN \<noteq> token_meta_key t"
  "STORAGE_KEYS_USER_INFO \<noteq> token_meta_key t"
  "CUSTOM_USERS_KEY \<noteq> token_meta_key t"
  by (auto simp: token_meta_key_def STORAGE_KEYS_ACCESS_TOKEN_def STORAGE_KEYS_REFRESH_TOKEN_def
      STORAGE_KEYS_USER_INFO_def CUSTOM_USERS_KEY_def)

lemma token_meta_key_inj [simp]: "token_meta_key a = token_meta_key b \<longleftrightarrow> a = b"
  by (simp add: token_meta_key_def)

lemma storage_keys_distinct [simp]:
  "STORAGE_KEYS_ACCESS_TOKEN \<noteq> STORAGE_KEYS_REFRESH_TOKEN"
  "STORAGE_KEYS_ACCESS_TOKEN \<noteq> STORAGE_KEYS_USER_INFO"
  "STORAGE_KEYS_REFRESH_TOKEN \<noteq> STORAGE_KEYS_ACCESS_TOKEN"
  "STORAGE_KEYS_REFRESH_TOKEN \<noteq> STORAGE_KEYS_USER_INFO"
  "STORAGE_KEYS_USER_INFO \<noteq> STORAGE_KEYS_ACCESS_TOKEN"
  "STORAGE_KEYS_USER_INFO \<noteq> STORAGE_KEYS_REFRESH_TOKEN"
  by (simp_all add: STORAGE_KEYS_ACCESS_TOKEN_def STORAGE_KEYS_REFRESH_TOKEN_def
      STORAGE_KEYS_USER_INFO_def)

lemmas example_defs =
  example_storage_def example_session_def example_tokens_def example_access_meta_def
  example_refresh_meta_def example_admin_def example_directory_def example_tampered_def
  STORAGE_KEYS_ACCESS_TOKEN_def STORAGE_KEYS_REFRESH_TOKEN_def STORAGE_KEYS_USER_INFO_def
  CUSTOM_USERS_KEY_def token_meta_key_def

section \<open>Token validity\<close>

lemma isTokenValid_iff_entry:
  "(isTokenValid js ls now (Some T) = Inr True) =
     (T \<noteq> [] \<and> (\<exists>t v x. ls (token_meta_key T) = Some (Json t v) \<and> t \<noteq> [] \<and> truthy_json v
                     \<and> ToNumber js (property v ''expiresAt'') = Inr x \<and> less_than now x))"
proof (cases "getTokenMetadata ls T")
  case None
  then have "\<not> (\<exists>t v. ls (token_meta_key T) = Some (Json t v) \<and> t \<noteq> [])"
    using getTokenMetadata_Some_iff[of ls T] by auto
  with None show ?thesis
    by (auto simp: isTokenValid_def)
next
  case (Some v)
  then obtain t where t: "ls (token_meta_key T) = Some (Json t v)" "t \<noteq> []"
    using getTokenMetadata_Some_iff[of ls T v] by auto
  with Some show ?thesis
    by (auto simp: isTokenValid_def split: sum.splits)
qed

text \<open>
  C2. For every token string \<open>T\<close> and every current time \<open>now\<close>, \<open>isTokenValid\<close> returns
  true if and only if \<open>T\<close> is non-empty, an entry is stored for \<open>T\<close> that parses to a
  metadata value (any value that is not \<open>null\<close>, \<open>false\<close>, zero or the empty string), and
  \<open>now\<close> is strictly less than that value's \<open>expiresAt\<close> as JavaScript's \<open><\<close> reads it;
  when the entry is an object whose \<open>expiresAt\<close> is a finite number \<open>r\<close>, the result is
  \<open>now < r\<close>. The absent token is invalid. The check only reads: it takes the storage and
  returns a truth value (or raises), no storage.
\<close>

theorem isTokenValid_iff_expiry:
  "((isTokenValid js ls now (Some T) = Inr True) =
      (T \<noteq> [] \<and> (\<exists>t v x. ls (token_meta_key T) = Some (Json t v) \<and> t \<noteq> [] \<and> truthy_json v
                      \<and> ToNumber js (property v ''expiresAt'') = Inr x \<and> less_than now x)))
   \<and> (T \<noteq> [] \<and> ls (token_meta_key T) = Some (Json t (JObject kvs)) \<and> t \<noteq> []
        \<and> map_of kvs ''expiresAt'' = Some (JNumber (Finite r)) \<longrightarrow>
      isTokenValid js ls now (Some T) = Inr (of_int now < r))
   \<and> isTokenValid js ls now None = Inr False"
proof (intro conjI impI)
  show "(isTokenValid js ls now (Some T) = Inr True) =
      (T \<noteq> [] \<and> (\<exists>t v x. ls (token_meta_key T) = Some (Json t v) \<and> t \<noteq> [] \<and> truthy_json v
                      \<and> ToNumber js (property v ''expiresAt'') = Inr x \<and> less_than now x))"
    by (rule isTokenValid_iff_entry)
next
  assume "T \<noteq> [] \<and> ls (token_meta_key T) = Some (Json t (JObject kvs)) \<and> t \<noteq> []
        \<and> map_of kvs ''expiresAt'' = Some (JNumber (Finite r))"
  then show "isTokenValid js ls now (Some T) = Inr (of_int now < r)"
    by (simp add: isTokenValid_def getTokenMetadata_def)
next
  show "isTokenValid js ls now None = Inr False"
    by (simp add: isTokenValid_def)
qed

theorem isTokenValid_iff_expiry_witness:
  "isTokenValid example_js example_storage 899999 (Some ''A'') = Inr True
   \<and> isTokenValid example_js example_storage 900000 (Some ''A'') = Inr False
   \<and> isTokenValid example_js example_tampered 1000 (Some ''P'') = Inr True
   \<and> isTokenValid example_js example_tampered 5000 (Some ''P'') = Inr False
   \<and> isTokenValid example_js example_storage 0 (Some ''B'') \<noteq> Inr True
   \<and> isTokenValid example_js example_storage 0 (Some []) \<noteq> Inr True"
proof -
  have a: "example_storage (token_meta_key ''A'') = Some (written example_access_meta)"
    and p: "example_tampered (token_meta_key ''P'')
              = Some (written (JObject [(''expiresAt'', JNumber (Finite 5000))]))"
    and b: "example_storage (token_meta_key ''B'') = None"
    by (simp_all add: example_defs)
  note t = isTokenValid_iff_expiry[where js = example_js]
  show ?thesis
    using t[of example_storage 899999 "''A''" "JSON_stringify example_js example_access_meta"
            "[(''userId'', JString ''1''), (''email'', JString ''admin@example.com''),
              (''role'', JString ''admin''), (''issuedAt'', JNumber (Finite 0)),
              (''expiresAt'', JNumber (Finite 900000))]" 900000]
      t[of example_storage 900000 "''A''" "JSON_stringify example_js example_access_meta"
            "[(''userId'', JString ''1''), (''email'', JString ''admin@example.com''),
              (''role'', JString ''admin''), (''issuedAt'', JNumber (Finite 0)),
              (''expiresAt'', JNumber (Finite 900000))]" 900000]
      t[of example_tampered 1000 "''P''"
            "JSON_stringify example_js (JObject [(''expiresAt'', JNumber (Finite 5000))])"
            "[(''expiresAt'', JNumber (Finite 5000))]" 5000]
      t[of example_tampered 5000 "''P''"
            "JSON_stringify example_js (JObject [(''expiresAt'', JNumber (Finite 5000))])"
            "[(''expiresAt'', JNumber (Finite 5000))]" 5000]
      t[of example_storage 0 "''B''"] t[of example_storage 0 "[]"] a p b
    by (simp add: written_def example_access_meta_def)
qed

section \<open>Clearing the tokens\<close>

text \<open>
  C8. For every storage state and every key \<open>k\<close>, \<open>clearTokens\<close> removes \<open>k\<close> exactly
  when \<open>k\<close> is one of \<open>accessToken\<close>, \<open>refreshToken\<close>, \<open>userInfo\<close> or the
  \<open>token_meta_\<close> key of a (non-empty) token that was stored under \<open>accessToken\<close> or
  \<open>refreshToken\<close> when the call began; every other key, such as \<open>app_settings\<close>,
  \<open>custom_users\<close> or the \<open>token_meta_\<close> entry of another token, keeps its value.
\<close>

theorem clearTokens_frame:
  "clearTokens ls k =
     (if k = STORAGE_KEYS_ACCESS_TOKEN \<or> k = STORAGE_KEYS_REFRESH_TOKEN \<or> k = STORAGE_KEYS_USER_INFO
         \<or> (\<exists>a. getItem ls STORAGE_KEYS_ACCESS_TOKEN = Some a \<and> a \<noteq> [] \<and> k = token_meta_key a)
         \<or> (\<exists>r. getItem ls STORAGE_KEYS_REFRESH_TOKEN = Some r \<and> r \<noteq> [] \<and> k = token_meta_key r)
      then None else ls k)"
  by (auto simp: clearTokens_def removeItem_def Let_def split: option.splits)

theorem clearTokens_frame_witness:
  "clearTokens example_storage ''accessToken'' = None
   \<and> clearTokens example_storage ''token_meta_A'' = None
   \<and> clearTokens example_storage ''token_meta_R'' = None
   \<and> clearTokens example_storage ''app_settings''
       = Some (written (JObject [(''theme'', JString ''dark'')]))
   \<and> clearTokens example_storage ''custom_users'' = Some (written (JArray []))
   \<and> clearTokens example_storage ''token_meta_Z'' = Some (written example_access_meta)"
  using clearTokens_frame[of example_storage "''accessToken''"]
    clearTokens_frame[of example_storage "''token_meta_A''"]
    clearTokens_frame[of example_storage "''token_meta_R''"]
    clearTokens_frame[of example_storage "''app_settings''"]
    clearTokens_frame[of example_storage "''custom_users''"]
    clearTokens_frame[of example_storage "''token_meta_Z''"]
  by (simp add: example_defs getItem_def)

section \<open>The stored pair and the lenient check\<close>

lemma getStoredTokens_Some_iff:
  "getStoredTokens ls = Some pair \<longleftrightarrow>
     getItem ls STORAGE_KEYS_ACCESS_TOKEN = Some (TokenPair.accessToken pair)
     \<and> getItem ls STORAGE_KEYS_REFRESH_TOKEN = Some (TokenPair.refreshToken pair)
     \<and> TokenPair.accessToken pair \<noteq> [] \<and> TokenPair.refreshToken pair \<noteq> []"
  by (cases pair) (auto simp: getStoredTokens_def split: option.splits)

lemma getStoredTokens_None_iff:
  "getStoredTokens ls = None \<longleftrightarrow>
     getItem ls STORAGE_KEYS_ACCESS_TOKEN \<in> {None, Some []}
     \<or> getItem ls STORAGE_KEYS_REFRESH_TOKEN \<in> {None, Some []}"
  by (auto simp: getStoredTokens_def split: option.splits)





section \<open>Logout\<close>

lemma clearTokens_session_keys:
  "clearTokens ls STORAGE_KEYS_ACCESS_TOKEN = None"
  "clearTokens ls STORAGE_KEYS_REFRESH_TOKEN = None"
  "clearTokens ls STORAGE_KEYS_USER_INFO = None"
  by (auto simp: clearTokens_def removeItem_def Let_def split: option.splits)

lemma clearTokens_meta_keys:
  "getItem ls STORAGE_KEYS_ACCESS_TOKEN = Some a \<Longrightarrow> a \<noteq> [] \<Longrightarrow>
     clearTokens ls (token_meta_key a) = None"
  "getItem ls STORAGE_KEYS_REFRESH_TOKEN = Some r \<Longrightarrow> r \<noteq> [] \<Longrightarrow>
     clearTokens ls (token_meta_key r) = None"
  by (auto simp: clearTokens_def removeItem_def Let_def split: option.splits)

lemma clearTokens_no_tokens:
  "ls STORAGE_KEYS_ACCESS_TOKEN = None \<Longrightarrow> ls STORAGE_KEYS_REFRESH_TOKEN = None \<Longrightarrow>
     ls STORAGE_KEYS_USER_INFO = None \<Longrightarrow> clearTokens ls = ls"
  by (auto simp: clearTokens_def removeItem_def Let_def getItem_def)

lemma clearTokens_idem: "clearTokens (clearTokens ls) = clearTokens ls"
  by (rule clearTokens_no_tokens) (rule clearTokens_session_keys)+

text \<open>
  C7. \<open>logout\<close> is total and idempotent: for every storage state it reports no error,
  leaves \<open>accessToken\<close>, \<open>refreshToken\<close>, \<open>userInfo\<close> and the metadata entries of the
  two stored tokens absent, and a second \<open>logout\<close> gives the same result again; on the
  empty storage it reports no error and leaves the storage empty.
\<close>

theorem logout_idempotent:
  "fst (logout ls) = None
   \<and> snd (logout ls) STORAGE_KEYS_ACCESS_TOKEN = None
   \<and> snd (logout ls) STORAGE_KEYS_REFRESH_TOKEN = None
   \<and> snd (logout ls) STORAGE_KEYS_USER_INFO = None
   \<and> (\<forall>a. getItem ls STORAGE_KEYS_ACCESS_TOKEN = Some a \<and> a \<noteq> [] \<longrightarrow>
          snd (logout ls) (token_meta_key a) = None)
   \<and> (\<forall>r. getItem ls STORAGE_KEYS_REFRESH_TOKEN = Some r \<and> r \<noteq> [] \<longrightarrow>
          snd (logout ls) (token_meta_key r) = None)
   \<and> logout (snd (logout ls)) = logout ls
   \<and> logout Map.empty = (None, Map.empty)"
  by (simp add: logout_def clearTokens_session_keys clearTokens_meta_keys clearTokens_idem
      clearTokens_no_tokens)

theorem logout_idempotent_witness:
  "fst (logout example_storage) = None
   \<and> snd (logout example_storage) ''accessToken'' = None
   \<and> snd (logout example_storage) ''refreshToken'' = None
   \<and> snd (logout example_storage) ''userInfo'' = None
   \<and> snd (logout example_storage) ''token_meta_A'' = None
   \<and> snd (logout example_storage) ''token_meta_R'' = None
   \<and> logout (snd (logout example_storage)) = logout example_storage"
  using logout_idempotent[of example_storage]
  by (simp add: example_defs getItem_def)

section \<open>The rejected transitions\<close>

lemma getSessionThunk_outcome:
  "fst (getSessionThunk js now_a uuid now_check now_issue ls st) =
     (case fst (getSession js now_a uuid now_check now_issue ls) of
        Inl e \<Rightarrow> st\<lparr> loading := False, error := None, AuthState.isAuthenticated := False \<rparr>
      | Inr d \<Rightarrow>
          st\<lparr> loading := False, AuthState.user := Some (Session.user d),
              AuthState.accessToken := Some (Session.accessToken d),
              AuthState.isAuthenticated := True, error := None \<rparr>)"
  by (simp add: getSessionThunk_def Let_def split: prod.splits sum.splits)

text \<open>
  C9. For every prior state and whatever the rejected action carries, the
  \<open>getSessionThunk.rejected\<close> transition leaves \<open>error\<close> none and sets
  \<open>isAuthenticated\<close> and \<open>loading\<close> to false (user and token stay as they were), whereas
  \<open>loginThunk.rejected\<close> stores the message it carries.
\<close>

theorem getSessionThunk_rejected_silent:
  "error (authReducer st (getSessionThunk_rejected payload)) = None
   \<and> \<not> AuthState.isAuthenticated (authReducer st (getSessionThunk_rejected payload))
   \<and> \<not> loading (authReducer st (getSessionThunk_rejected payload))
   \<and> AuthState.user (authReducer st (getSessionThunk_rejected payload)) = AuthState.user st
   \<and> AuthState.accessToken (authReducer st (getSessionThunk_rejected payload))
       = AuthState.accessToken st
   \<and> error (authReducer st (loginThunk_rejected (Some (c # msg)))) = Some (c # msg)
   \<and> \<not> AuthState.isAuthenticated (authReducer st (loginThunk_rejected (Some (c # msg))))
   \<and> \<not> loading (authReducer st (loginThunk_rejected (Some (c # msg))))"
  by (simp add: or_default_def)

section \<open>Renewal\<close>




lemma refreshAccessToken_invalid:
  "isTokenValid js ls now_check (Some R) = Inr False \<Longrightarrow>
     refreshAccessToken js uuid now_check now_issue ls R = Inr (None, ls)"
  by (simp add: refreshAccessToken_def)

lemma refreshAccessToken_Inl_iff:
  "(refreshAccessToken js uuid now_check now_issue ls R = Inl e) =
     (isTokenValid js ls now_check (Some R) = Inl e)"
  by (auto simp: refreshAccessToken_def Let_def generateAccessToken_def
      split: sum.splits option.splits if_splits)

lemma isTokenValid_metadata:
  "isTokenValid js ls now (Some R) = Inr True \<Longrightarrow>
     \<exists>v. getTokenMetadata ls R = Some v \<and> truthy_json v"
  by (auto simp: isTokenValid_def split: option.splits if_splits sum.splits)

lemma refreshed_user_properties:
  "property (obj [(''id'', a), (''email'', b), (''name'', Some (JString [])), (''role'', c)]) ''id''
     = a"
  "property (obj [(''id'', a), (''email'', b), (''name'', Some (JString [])), (''role'', c)])
     ''email'' = b"
  "property (obj [(''id'', a), (''email'', b), (''name'', Some (JString [])), (''role'', c)])
     ''role'' = c"
  by (cases a; cases b; cases c; simp add: List.map_filter_simps)+

lemma refreshAccessToken_valid:
  "isTokenValid js ls now_check (Some R) = Inr True \<Longrightarrow> getTokenMetadata ls R = Some v \<Longrightarrow>
   m = obj [(''userId'', property v ''userId''), (''email'', property v ''email''),
            (''role'', property v ''role''),
            (''issuedAt'', Some (JNumber (Finite (of_int now_issue)))),
            (''expiresAt'', Some (JNumber (Finite (of_int (now_issue + ACCESS_TOKEN_EXPIRY)))))] \<Longrightarrow>
     refreshAccessToken js uuid now_check now_issue ls R =
       Inr (Some uuid, ls(token_meta_key uuid \<mapsto> Json (JSON_stringify js m) (reparse m)))"
  using isTokenValid_metadata[of js ls now_check R]
  by (simp add: refreshAccessToken_def generateAccessToken_def setItemJSON_def Let_def
      refreshed_user_properties del: obj.simps)







section \<open>Session restoration\<close>

lemma getSession_no_pair:
  "getStoredTokens ls = None \<Longrightarrow>
     getSession js now_a uuid now_check now_issue ls =
       (Inl \<lparr> AuthError.code = SESSION_NOT_FOUND, AuthError.message = MSG_NO_SESSION \<rparr>, ls)"
  by (simp add: getSession_def)

text \<open>The last stage of \<open>getSession\<close>: reading the cached user.\<close>

lemma getSession_valid_access:
  assumes "getStoredTokens ls = Some pair"
    and "isTokenValid js ls now_a (Some (TokenPair.accessToken pair)) = Inr True"
  shows "getSession js now_a uuid now_check now_issue ls =
     (case ls STORAGE_KEYS_USER_INFO of
        None \<Rightarrow> (Inl \<lparr> AuthError.code = SESSION_NOT_FOUND, AuthError.message = MSG_NO_USER_INFO \<rparr>, ls)
      | Some s \<Rightarrow>
          if item_text s = []
          then (Inl \<lparr> AuthError.code = SESSION_NOT_FOUND, AuthError.message = MSG_NO_USER_INFO \<rparr>, ls)
          else (case JSON_parse s of
                  None \<Rightarrow> (Inl \<lparr> AuthError.code = TOKEN_INVALID,
                                  AuthError.message = MSG_SESSION_ERROR \<rparr>, clearTokens ls)
                | Some u \<Rightarrow>
                    (Inr \<lparr> Session.user = u, Session.accessToken = TokenPair.accessToken pair \<rparr>,
                     ls)))"
  using assms
  by (simp add: getSession_def Let_def split: option.splits)

lemma getSession_access_raises:
  assumes "getStoredTokens ls = Some pair"
    and "isTokenValid js ls now_a (Some (TokenPair.accessToken pair)) = Inl e"
  shows "getSession js now_a uuid now_check now_issue ls =
     (Inl \<lparr> AuthError.code = TOKEN_INVALID, AuthError.message = MSG_SESSION_ERROR \<rparr>,
      clearTokens ls)"
  using assms by (simp add: getSession_def Let_def)

lemma getSession_renew_raises:
  assumes "getStoredTokens ls = Some pair"
    and "isTokenValid js ls now_a (Some (TokenPair.accessToken pair)) = Inr False"
    and "isTokenValid js ls now_check (Some (TokenPair.refreshToken pair)) = Inl e"
  shows "getSession js now_a uuid now_check now_issue ls =
     (Inl \<lparr> AuthError.code = TOKEN_INVALID, AuthError.message = MSG_SESSION_ERROR \<rparr>,
      clearTokens ls)"
proof -
  have "refreshAccessToken js uuid now_check now_issue ls (TokenPair.refreshToken pair) = Inl e"
    using assms(3) by (simp add: refreshAccessToken_Inl_iff)
  with assms(1,2) show ?thesis
    by (simp add: getSession_def Let_def)
qed

lemma getSession_renew_fails:
  assumes "getStoredTokens ls = Some pair"
    and "isTokenValid js ls now_a (Some (TokenPair.accessToken pair)) = Inr False"
    and "isTokenValid js ls now_check (Some (TokenPair.refreshToken pair)) = Inr False"
  shows "getSession js now_a uuid now_check now_issue ls =
     (Inl \<lparr> AuthError.code = TOKEN_EXPIRED, AuthError.message = MSG_SESSION_EXPIRED \<rparr>, clearTokens ls)"
  using assms by (simp add: getSession_def Let_def refreshAccessToken_invalid)

lemma getSession_renew_succeeds:
  assumes "getStoredTokens ls = Some pair"
    and "isTokenValid js ls now_a (Some (TokenPair.accessToken pair)) = Inr False"
    and v: "isTokenValid js ls now_check (Some (TokenPair.refreshToken pair)) = Inr True"
    and m: "getTokenMetadata ls (TokenPair.refreshToken pair) = Some m"
    and "uuid \<noteq> []"
    and n: "n = obj [(''userId'', property m ''userId''), (''email'', property m ''email''),
                  (''role'', property m ''role''),
                  (''issuedAt'', Some (JNumber (Finite (of_int now_issue)))),
                  (''expiresAt'',
                   Some (JNumber (Finite (of_int (now_issue + ACCESS_TOKEN_EXPIRY)))))]"
    and "ls2 = ls(token_meta_key uuid \<mapsto> Json (JSON_stringify js n) (reparse n),
                  STORAGE_KEYS_ACCESS_TOKEN \<mapsto> Str uuid,
                  STORAGE_KEYS_REFRESH_TOKEN \<mapsto> Str (TokenPair.refreshToken pair))"
  shows "getSession js now_a uuid now_check now_issue ls =
     (case ls STORAGE_KEYS_USER_INFO of
        None \<Rightarrow> (Inl \<lparr> AuthError.code = SESSION_NOT_FOUND, AuthError.message = MSG_NO_USER_INFO \<rparr>, ls2)
      | Some s \<Rightarrow>
          if item_text s = []
          then (Inl \<lparr> AuthError.code = SESSION_NOT_FOUND, AuthError.message = MSG_NO_USER_INFO \<rparr>, ls2)
          else (case JSON_parse s of
                  None \<Rightarrow> (Inl \<lparr> AuthError.code = TOKEN_INVALID,
                                  AuthError.message = MSG_SESSION_ERROR \<rparr>, clearTokens ls2)
                | Some u \<Rightarrow> (Inr \<lparr> Session.user = u, Session.accessToken = uuid \<rparr>, ls2)))"
  using assms(1,2,5,7)
  by (simp add: getSession_def Let_def refreshAccessToken_valid[OF v m n] saveTokens_def
      setItem_def split: option.splits)

lemma renewed_storage_tokens:
  assumes "ls2 = ls(token_meta_key uuid \<mapsto> v, STORAGE_KEYS_ACCESS_TOKEN \<mapsto> Str uuid,
                    STORAGE_KEYS_REFRESH_TOKEN \<mapsto> Str r)"
  shows "getItem ls2 STORAGE_KEYS_ACCESS_TOKEN = Some uuid"
    and "getItem ls2 STORAGE_KEYS_REFRESH_TOKEN = Some r"
    and "ls2 (token_meta_key uuid) = Some v"
    and "ls2 STORAGE_KEYS_USER_INFO = ls STORAGE_KEYS_USER_INFO"
  using assms by (simp_all add: getItem_def)

lemma issued_metadata_valid:
  "ls (token_meta_key uuid) =
     Some (Json t (reparse
             (obj [(''userId'', a), (''email'', b), (''role'', c),
                   (''issuedAt'', Some (JNumber (Finite (of_int now)))),
                   (''expiresAt'',
                    Some (JNumber (Finite (of_int (now + ACCESS_TOKEN_EXPIRY)))))]))) \<Longrightarrow>
   t \<noteq> [] \<Longrightarrow> uuid \<noteq> [] \<Longrightarrow> isTokenValid js ls now (Some uuid) = Inr True"
  by (cases a; cases b; cases c)
     (simp_all add: isTokenValid_def getTokenMetadata_def List.map_filter_simps
       ACCESS_TOKEN_EXPIRY_def)

text \<open>
  C10. A stored pair with a valid access token, or with an expired access token and a
  successful renewal, is not enough: when the \<open>userInfo\<close> key is absent, \<open>getSession\<close>
  fails with \<open>SESSION_NOT_FOUND\<close> and does not clear the tokens. With a valid access
  token the storage is left as it was; after a renewal the stored pair is the new access
  token with the same refresh token.
\<close>

theorem getSession_needs_userInfo:
  assumes "getStoredTokens ls = Some pair"
    and "ls STORAGE_KEYS_USER_INFO = None"
  shows "(isTokenValid js ls now_a (Some (TokenPair.accessToken pair)) = Inr True \<longrightarrow>
            getSession js now_a uuid now_check now_issue ls =
              (Inl \<lparr> AuthError.code = SESSION_NOT_FOUND, AuthError.message = MSG_NO_USER_INFO \<rparr>, ls))
       \<and> (isTokenValid js ls now_a (Some (TokenPair.accessToken pair)) = Inr False
            \<and> isTokenValid js ls now_check (Some (TokenPair.refreshToken pair)) = Inr True
            \<and> uuid \<noteq> [] \<longrightarrow>
            fst (getSession js now_a uuid now_check now_issue ls) =
              Inl \<lparr> AuthError.code = SESSION_NOT_FOUND, AuthError.message = MSG_NO_USER_INFO \<rparr>
            \<and> getStoredTokens (snd (getSession js now_a uuid now_check now_issue ls)) =
                Some \<lparr> TokenPair.accessToken = uuid,
                       TokenPair.refreshToken = TokenPair.refreshToken pair \<rparr>)"
proof (rule conjI; rule impI)
  assume "isTokenValid js ls now_a (Some (TokenPair.accessToken pair)) = Inr True"
  with assms show "getSession js now_a uuid now_check now_issue ls =
      (Inl \<lparr> AuthError.code = SESSION_NOT_FOUND, AuthError.message = MSG_NO_USER_INFO \<rparr>, ls)"
    by (simp add: getSession_valid_access)
next
  assume h: "isTokenValid js ls now_a (Some (TokenPair.accessToken pair)) = Inr False
            \<and> isTokenValid js ls now_check (Some (TokenPair.refreshToken pair)) = Inr True
            \<and> uuid \<noteq> []"
  then obtain m where m: "getTokenMetadata ls (TokenPair.refreshToken pair) = Some m"
    using isTokenValid_metadata by blast
  define n where "n = obj [(''userId'', property m ''userId''), (''email'', property m ''email''),
                  (''role'', property m ''role''),
                  (''issuedAt'', Some (JNumber (Finite (of_int now_issue)))),
                  (''expiresAt'',
                   Some (JNumber (Finite (of_int (now_issue + ACCESS_TOKEN_EXPIRY)))))]"
  define ls2 where "ls2 = ls(token_meta_key uuid \<mapsto> Json (JSON_stringify js n) (reparse n),
                  STORAGE_KEYS_ACCESS_TOKEN \<mapsto> Str uuid,
                  STORAGE_KEYS_REFRESH_TOKEN \<mapsto> Str (TokenPair.refreshToken pair))"
  have r: "TokenPair.refreshToken pair \<noteq> []"
    using assms(1) by (simp add: getStoredTokens_Some_iff)
  have g: "getSession js now_a uuid now_check now_issue ls =
      (Inl \<lparr> AuthError.code = SESSION_NOT_FOUND, AuthError.message = MSG_NO_USER_INFO \<rparr>, ls2)"
    using getSession_renew_succeeds[OF assms(1) _ _ m _ n_def ls2_def, of now_a now_check] h
      assms(2)
    by simp
  have "getStoredTokens ls2 =
      Some \<lparr> TokenPair.accessToken = uuid, TokenPair.refreshToken = TokenPair.refreshToken pair \<rparr>"
    using h r by (simp add: getStoredTokens_Some_iff renewed_storage_tokens[OF ls2_def])
  with g show "fst (getSession js now_a uuid now_check now_issue ls) =
              Inl \<lparr> AuthError.code = SESSION_NOT_FOUND, AuthError.message = MSG_NO_USER_INFO \<rparr>
            \<and> getStoredTokens (snd (getSession js now_a uuid now_check now_issue ls)) =
                Some \<lparr> TokenPair.accessToken = uuid,
                       TokenPair.refreshToken = TokenPair.refreshToken pair \<rparr>"
    by simp
qed

theorem getSession_needs_userInfo_witness:
  "getStoredTokens example_tokens = Some \<lparr> TokenPair.accessToken = ''A'', TokenPair.refreshToken = ''R'' \<rparr>
   \<and> example_tokens STORAGE_KEYS_USER_INFO = None
   \<and> isTokenValid example_js example_tokens 1000 (Some ''A'') = Inr True
   \<and> getSession example_js 1000 ''N'' 1000 1000 example_tokens =
        (Inl \<lparr> AuthError.code = SESSION_NOT_FOUND, AuthError.message = MSG_NO_USER_INFO \<rparr>,
         example_tokens)
   \<and> isTokenValid example_js example_tokens 1000000 (Some ''A'') = Inr False
   \<and> isTokenValid example_js example_tokens 1000000 (Some ''R'') = Inr True
   \<and> fst (getSession example_js 1000000 ''N'' 1000000 1000000 example_tokens) =
        Inl \<lparr> AuthError.code = SESSION_NOT_FOUND, AuthError.message = MSG_NO_USER_INFO \<rparr>
   \<and> getStoredTokens (snd (getSession example_js 1000000 ''N'' 1000000 1000000 example_tokens)) =
        Some \<lparr> TokenPair.accessToken = ''N'', TokenPair.refreshToken = ''R'' \<rparr>"
proof -
  have p: "getStoredTokens example_tokens =
      Some \<lparr> TokenPair.accessToken = ''A'', TokenPair.refreshToken = ''R'' \<rparr>"
    by (simp add: example_defs getStoredTokens_def getItem_def)
  have u: "example_tokens STORAGE_KEYS_USER_INFO = None"
    by (simp add: example_defs)
  have v: "isTokenValid example_js example_tokens 1000 (Some ''A'') = Inr True"
    "isTokenValid example_js example_tokens 1000000 (Some ''A'') = Inr False"
    "isTokenValid example_js example_tokens 1000000 (Some ''R'') = Inr True"
    by (simp_all add: example_defs isTokenValid_def getTokenMetadata_def)
  show ?thesis
    using getSession_needs_userInfo[OF p u, of example_js 1000 "''N''" 1000 1000]
      getSession_needs_userInfo[OF p u, of example_js 1000000 "''N''" 1000000 1000000] p u v
    by simp
qed

text \<open>
  C4 as stated fails where the access token is valid and no user is cached: the stored
  pair is there, the access token is valid, and \<open>getSession\<close> answers
  \<open>SESSION_NOT_FOUND\<close> instead of the token.
\<close>

theorem getSession_valid_token_without_user:
  "getStoredTokens example_tokens =
     Some \<lparr> TokenPair.accessToken = ''A'', TokenPair.refreshToken = ''R'' \<rparr>
   \<and> isTokenValid example_js example_tokens 1000 (Some ''A'') = Inr True
   \<and> getSession example_js 1000 ''N'' 1000 1000 example_tokens =
       (Inl \<lparr> AuthError.code = SESSION_NOT_FOUND, AuthError.message = MSG_NO_USER_INFO \<rparr>,
        example_tokens)"
  by (simp add: example_defs getSession_def getStoredTokens_def getItem_def isTokenValid_def
      getTokenMetadata_def)

text \<open>
  C4, amended. For every storage state: with no stored token pair \<open>getSession\<close> fails
  with \<open>SESSION_NOT_FOUND\<close>; with a valid access token and an entry under \<open>userInfo\<close> that
  parses, it returns that token with the value the entry parses to and leaves the
  storage as it was (no token is issued); with an expired access token and a failing
  renewal (the refresh token is not valid) it clears the stored session data and fails
  with \<open>TOKEN_EXPIRED\<close>; with an expired access token, a successful renewal and an entry
  under \<open>userInfo\<close> that parses, it returns the new access token with the value of that
  entry, and the storage then holds the new (valid) access token under \<open>accessToken\<close>
  and the same refresh token as before. When the validity check of the access token
  raises, or the access token is expired and the check of the refresh token raises,
  \<open>getSession\<close> clears the stored session data and fails with \<open>TOKEN_INVALID\<close>.
\<close>

theorem getSession_restores:
  "(getStoredTokens ls = None \<longrightarrow>
      getSession js now_a uuid now_check now_issue ls =
        (Inl \<lparr> AuthError.code = SESSION_NOT_FOUND, AuthError.message = MSG_NO_SESSION \<rparr>, ls))
   \<and> (getStoredTokens ls = Some pair
        \<and> isTokenValid js ls now_a (Some (TokenPair.accessToken pair)) = Inr True
        \<and> ls STORAGE_KEYS_USER_INFO = Some (Json t u) \<and> t \<noteq> [] \<longrightarrow>
      getSession js now_a uuid now_check now_issue ls =
        (Inr \<lparr> Session.user = u, Session.accessToken = TokenPair.accessToken pair \<rparr>, ls))
   \<and> (getStoredTokens ls = Some pair
        \<and> isTokenValid js ls now_a (Some (TokenPair.accessToken pair)) = Inr False
        \<and> isTokenValid js ls now_check (Some (TokenPair.refreshToken pair)) = Inr False \<longrightarrow>
      getSession js now_a uuid now_check now_issue ls =
        (Inl \<lparr> AuthError.code = TOKEN_EXPIRED, AuthError.message = MSG_SESSION_EXPIRED \<rparr>,
         clearTokens ls)
      \<and> getStoredTokens (clearTokens ls) = None
      \<and> clearTokens ls STORAGE_KEYS_USER_INFO = None
      \<and> clearTokens ls (token_meta_key (TokenPair.accessToken pair)) = None
      \<and> clearTokens ls (token_meta_key (TokenPair.refreshToken pair)) = None)
   \<and> (getStoredTokens ls = Some pair
        \<and> isTokenValid js ls now_a (Some (TokenPair.accessToken pair)) = Inr False
        \<and> isTokenValid js ls now_check (Some (TokenPair.refreshToken pair)) = Inr True
        \<and> uuid \<noteq> []
        \<and> ls STORAGE_KEYS_USER_INFO = Some (Json t u) \<and> t \<noteq> [] \<longrightarrow>
      fst (getSession js now_a uuid now_check now_issue ls) =
        Inr \<lparr> Session.user = u, Session.accessToken = uuid \<rparr>
      \<and> getItem (snd (getSession js now_a uuid now_check now_issue ls)) STORAGE_KEYS_ACCESS_TOKEN
          = Some uuid
      \<and> getItem (snd (getSession js now_a uuid now_check now_issue ls)) STORAGE_KEYS_REFRESH_TOKEN
          = getItem ls STORAGE_KEYS_REFRESH_TOKEN
      \<and> isTokenValid js (snd (getSession js now_a uuid now_check now_issue ls)) now_issue
          (Some uuid) = Inr True)
   \<and> (getStoredTokens ls = Some pair
        \<and> (isTokenValid js ls now_a (Some (TokenPair.accessToken pair)) = Inl e
           \<or> isTokenValid js ls now_a (Some (TokenPair.accessToken pair)) = Inr False
             \<and> isTokenValid js ls now_check (Some (TokenPair.refreshToken pair)) = Inl e) \<longrightarrow>
      getSession js now_a uuid now_check now_issue ls =
        (Inl \<lparr> AuthError.code = TOKEN_INVALID, AuthError.message = MSG_SESSION_ERROR \<rparr>,
         clearTokens ls)
      \<and> getStoredTokens (clearTokens ls) = None
      \<and> clearTokens ls STORAGE_KEYS_USER_INFO = None)"
proof (intro conjI)
  show "getStoredTokens ls = None \<longrightarrow>
      getSession js now_a uuid now_check now_issue ls =
        (Inl \<lparr> AuthError.code = SESSION_NOT_FOUND, AuthError.message = MSG_NO_SESSION \<rparr>, ls)"
    by (simp add: getSession_no_pair)
next
  show "getStoredTokens ls = Some pair
        \<and> isTokenValid js ls now_a (Some (TokenPair.accessToken pair)) = Inr True
        \<and> ls STORAGE_KEYS_USER_INFO = Some (Json t u) \<and> t \<noteq> [] \<longrightarrow>
      getSession js now_a uuid now_check now_issue ls =
        (Inr \<lparr> Session.user = u, Session.accessToken = TokenPair.accessToken pair \<rparr>, ls)"
    by (simp add: getSession_valid_access)
next
  show "getStoredTokens ls = Some pair
        \<and> isTokenValid js ls now_a (Some (TokenPair.accessToken pair)) = Inr False
        \<and> isTokenValid js ls now_check (Some (TokenPair.refreshToken pair)) = Inr False \<longrightarrow>
      getSession js now_a uuid now_check now_issue ls =
        (Inl \<lparr> AuthError.code = TOKEN_EXPIRED, AuthError.message = MSG_SESSION_EXPIRED \<rparr>,
         clearTokens ls)
      \<and> getStoredTokens (clearTokens ls) = None
      \<and> clearTokens ls STORAGE_KEYS_USER_INFO = None
      \<and> clearTokens ls (token_meta_key (TokenPair.accessToken pair)) = None
      \<and> clearTokens ls (token_meta_key (TokenPair.refreshToken pair)) = None"
  proof (rule impI)
    assume h: "getStoredTokens ls = Some pair
        \<and> isTokenValid js ls now_a (Some (TokenPair.accessToken pair)) = Inr False
        \<and> isTokenValid js ls now_check (Some (TokenPair.refreshToken pair)) = Inr False"
    then have g: "getSession js now_a uuid now_check now_issue ls =
        (Inl \<lparr> AuthError.code = TOKEN_EXPIRED, AuthError.message = MSG_SESSION_EXPIRED \<rparr>,
         clearTokens ls)"
      by (simp add: getSession_renew_fails)
    from h have stored: "getItem ls STORAGE_KEYS_ACCESS_TOKEN = Some (TokenPair.accessToken pair)"
      "TokenPair.accessToken pair \<noteq> []"
      "getItem ls STORAGE_KEYS_REFRESH_TOKEN = Some (TokenPair.refreshToken pair)"
      "TokenPair.refreshToken pair \<noteq> []"
      by (simp_all add: getStoredTokens_Some_iff)
    have gone: "getStoredTokens (clearTokens ls) = None"
      by (simp add: getStoredTokens_None_iff getItem_def clearTokens_session_keys)
    from g gone stored show "getSession js now_a uuid now_check now_issue ls =
        (Inl \<lparr> AuthError.code = TOKEN_EXPIRED, AuthError.message = MSG_SESSION_EXPIRED \<rparr>,
         clearTokens ls)
      \<and> getStoredTokens (clearTokens ls) = None
      \<and> clearTokens ls STORAGE_KEYS_USER_INFO = None
      \<and> clearTokens ls (token_meta_key (TokenPair.accessToken pair)) = None
      \<and> clearTokens ls (token_meta_key (TokenPair.refreshToken pair)) = None"
      by (simp add: clearTokens_session_keys clearTokens_meta_keys)
  qed
next
  show "getStoredTokens ls = Some pair
        \<and> isTokenValid js ls now_a (Some (TokenPair.accessToken pair)) = Inr False
        \<and> isTokenValid js ls now_check (Some (TokenPair.refreshToken pair)) = Inr True
        \<and> uuid \<noteq> []
        \<and> ls STORAGE_KEYS_USER_INFO = Some (Json t u) \<and> t \<noteq> [] \<longrightarrow>
      fst (getSession js now_a uuid now_check now_issue ls) =
        Inr \<lparr> Session.user = u, Session.accessToken = uuid \<rparr>
      \<and> getItem (snd (getSession js now_a uuid now_check now_issue ls)) STORAGE_KEYS_ACCESS_TOKEN
          = Some uuid
      \<and> getItem (snd (getSession js now_a uuid now_check now_issue ls)) STORAGE_KEYS_REFRESH_TOKEN
          = getItem ls STORAGE_KEYS_REFRESH_TOKEN
      \<and> isTokenValid js (snd (getSession js now_a uuid now_check now_issue ls)) now_issue
          (Some uuid) = Inr True"
  proof (rule impI)
    assume h: "getStoredTokens ls = Some pair
        \<and> isTokenValid js ls now_a (Some (TokenPair.accessToken pair)) = Inr False
        \<and> isTokenValid js ls now_check (Some (TokenPair.refreshToken pair)) = Inr True
        \<and> uuid \<noteq> []
        \<and> ls STORAGE_KEYS_USER_INFO = Some (Json t u) \<and> t \<noteq> []"
    then obtain m where m: "getTokenMetadata ls (TokenPair.refreshToken pair) = Some m"
      using isTokenValid_metadata by blast
    define n where "n = obj [(''userId'', property m ''userId''), (''email'', property m ''email''),
                  (''role'', property m ''role''),
                  (''issuedAt'', Some (JNumber (Finite (of_int now_issue)))),
                  (''expiresAt'',
                   Some (JNumber (Finite (of_int (now_issue + ACCESS_TOKEN_EXPIRY)))))]"
    define ls2 where "ls2 = ls(token_meta_key uuid \<mapsto> Json (JSON_stringify js n) (reparse n),
                  STORAGE_KEYS_ACCESS_TOKEN \<mapsto> Str uuid,
                  STORAGE_KEYS_REFRESH_TOKEN \<mapsto> Str (TokenPair.refreshToken pair))"
    have g: "getSession js now_a uuid now_check now_issue ls =
        (Inr \<lparr> Session.user = u, Session.accessToken = uuid \<rparr>, ls2)"
      using getSession_renew_succeeds[OF _ _ _ m _ n_def ls2_def, of now_a now_check] h
      by simp
    have "JSON_stringify js n \<noteq> []"
      by (simp add: n_def)
    then have valid: "isTokenValid js ls2 now_issue (Some uuid) = Inr True"
      using h renewed_storage_tokens(3)[OF ls2_def]
      by (intro issued_metadata_valid[of ls2 uuid "JSON_stringify js n" "property m ''userId''"
            "property m ''email''" "property m ''role''" now_issue js])
        (simp_all add: n_def del: obj.simps reparse.simps)
    from h have "getItem ls STORAGE_KEYS_REFRESH_TOKEN = Some (TokenPair.refreshToken pair)"
      by (simp add: getStoredTokens_Some_iff)
    with g valid show "fst (getSession js now_a uuid now_check now_issue ls) =
        Inr \<lparr> Session.user = u, Session.accessToken = uuid \<rparr>
      \<and> getItem (snd (getSession js now_a uuid now_check now_issue ls)) STORAGE_KEYS_ACCESS_TOKEN
          = Some uuid
      \<and> getItem (snd (getSession js now_a uuid now_check now_issue ls)) STORAGE_KEYS_REFRESH_TOKEN
          = getItem ls STORAGE_KEYS_REFRESH_TOKEN
      \<and> isTokenValid js (snd (getSession js now_a uuid now_check now_issue ls)) now_issue
          (Some uuid) = Inr True"
      by (simp add: renewed_storage_tokens[OF ls2_def])
  qed
next
  show "getStoredTokens ls = Some pair
        \<and> (isTokenValid js ls now_a (Some (TokenPair.accessToken pair)) = Inl e
           \<or> isTokenValid js ls now_a (Some (TokenPair.accessToken pair)) = Inr False
             \<and> isTokenValid js ls now_check (Some (TokenPair.refreshToken pair)) = Inl e) \<longrightarrow>
      getSession js now_a uuid now_check now_issue ls =
        (Inl \<lparr> AuthError.code = TOKEN_INVALID, AuthError.message = MSG_SESSION_ERROR \<rparr>,
         clearTokens ls)
      \<and> getStoredTokens (clearTokens ls) = None
      \<and> clearTokens ls STORAGE_KEYS_USER_INFO = None"
  proof (rule impI)
    assume h: "getStoredTokens ls = Some pair
        \<and> (isTokenValid js ls now_a (Some (TokenPair.accessToken pair)) = Inl e
           \<or> isTokenValid js ls now_a (Some (TokenPair.accessToken pair)) = Inr False
             \<and> isTokenValid js ls now_check (Some (TokenPair.refreshToken pair)) = Inl e)"
    then have g: "getSession js now_a uuid now_check now_issue ls =
        (Inl \<lparr> AuthError.code = TOKEN_INVALID, AuthError.message = MSG_SESSION_ERROR \<rparr>,
         clearTokens ls)"
      using getSession_access_raises[of ls pair js now_a e uuid now_check now_issue]
        getSession_renew_raises[of ls pair js now_a now_check e uuid now_issue]
      by blast
    have gone: "getStoredTokens (clearTokens ls) = None"
      by (simp add: getStoredTokens_None_iff getItem_def clearTokens_session_keys)
    from g gone show "getSession js now_a uuid now_check now_issue ls =
        (Inl \<lparr> AuthError.code = TOKEN_INVALID, AuthError.message = MSG_SESSION_ERROR \<rparr>,
         clearTokens ls)
      \<and> getStoredTokens (clearTokens ls) = None
      \<and> clearTokens ls STORAGE_KEYS_USER_INFO = None"
      by (simp add: clearTokens_session_keys)
  qed
qed

theorem getSession_restores_witness:
  "getSession example_js 0 ''N'' 0 0 Map.empty =
     (Inl \<lparr> AuthError.code = SESSION_NOT_FOUND, AuthError.message = MSG_NO_SESSION \<rparr>, Map.empty)
   \<and> getSession example_js 1000 ''N'' 1000 1000 example_session =
       (Inr \<lparr> Session.user = User_json example_admin, Session.accessToken = ''A'' \<rparr>,
        example_session)
   \<and> getSession example_js 700000000 ''N'' 700000000 700000000 example_session =
       (Inl \<lparr> AuthError.code = TOKEN_EXPIRED, AuthError.message = MSG_SESSION_EXPIRED \<rparr>,
        clearTokens example_session)
   \<and> getStoredTokens (clearTokens example_session) = None
   \<and> fst (getSession example_js 1000000 ''N'' 1000001 1000002 example_session) =
       Inr \<lparr> Session.user = User_json example_admin, Session.accessToken = ''N'' \<rparr>
   \<and> getItem (snd (getSession example_js 1000000 ''N'' 1000001 1000002 example_session))
         STORAGE_KEYS_ACCESS_TOKEN = Some ''N''
   \<and> getItem (snd (getSession example_js 1000000 ''N'' 1000001 1000002 example_session))
         STORAGE_KEYS_REFRESH_TOKEN = Some ''R''
   \<and> getSession example_js 1000 ''N'' 1000 1000 example_tampered =
       (Inl \<lparr> AuthError.code = TOKEN_INVALID, AuthError.message = MSG_SESSION_ERROR \<rparr>,
        clearTokens example_tampered)"
proof -
  have e: "getStoredTokens Map.empty = None"
    by (simp add: getStoredTokens_def getItem_def)
  have p: "getStoredTokens example_session =
      Some \<lparr> TokenPair.accessToken = ''A'', TokenPair.refreshToken = ''R'' \<rparr>"
    by (simp add: example_defs getStoredTokens_def getItem_def)
  have u: "example_session STORAGE_KEYS_USER_INFO =
      Some (Json (JSON_stringify example_js (User_json example_admin)) (User_json example_admin))"
    "JSON_stringify example_js (User_json example_admin) \<noteq> []"
    by (simp_all add: example_session_def STORAGE_KEYS_USER_INFO_def written_def)
      (simp add: User_json_def)
  have r: "getItem example_session STORAGE_KEYS_REFRESH_TOKEN = Some ''R''"
    by (simp add: example_defs getItem_def)
  have v: "isTokenValid example_js example_session 1000 (Some ''A'') = Inr True"
    "isTokenValid example_js example_session 700000000 (Some ''A'') = Inr False"
    "isTokenValid example_js example_session 700000000 (Some ''R'') = Inr False"
    "isTokenValid example_js example_session 1000000 (Some ''A'') = Inr False"
    "isTokenValid example_js example_session 1000001 (Some ''R'') = Inr True"
    by (simp_all add: example_defs isTokenValid_def getTokenMetadata_def)
  have q: "getStoredTokens example_tampered =
      Some \<lparr> TokenPair.accessToken = ''X'', TokenPair.refreshToken = ''R'' \<rparr>"
    by (simp add: example_defs getStoredTokens_def getItem_def)
  have x: "isTokenValid example_js example_tampered 1000 (Some ''X'') = Inl TypeError"
    by (simp add: example_defs isTokenValid_def getTokenMetadata_def)
  note t = getSession_restores[where js = example_js and uuid = "''N''"
      and t = "JSON_stringify example_js (User_json example_admin)"
      and u = "User_json example_admin" and e = TypeError]
  note s = t[where pair = "\<lparr> TokenPair.accessToken = ''A'', TokenPair.refreshToken = ''R'' \<rparr>"]
  show ?thesis
    using s[where ls = Map.empty and now_a = 0 and now_check = 0 and now_issue = 0]
      s[where ls = example_session and now_a = 1000 and now_check = 1000 and now_issue = 1000]
      s[where ls = example_session and now_a = 700000000 and now_check = 700000000
          and now_issue = 700000000]
      s[where ls = example_session and now_a = 1000000 and now_check = 1000001
          and now_issue = 1000002]
      t[where pair = "\<lparr> TokenPair.accessToken = ''X'', TokenPair.refreshToken = ''R'' \<rparr>"
          and ls = example_tampered and now_a = 1000 and now_check = 1000 and now_issue = 1000]
      e p u r v q x
    by simp
qed

section \<open>The request pipeline\<close>

lemma requestInterceptor_isRetry: "isRetry (requestInterceptor rid b cfg) = isRetry cfg"
  by (simp add: requestInterceptor_def Let_def split: option.splits)

lemma settle_config: "settle cfg r = Inl err \<Longrightarrow> config err = Some cfg"
  by (auto simp: settle_def split: reply.splits if_splits)

lemma settle_401:
  "settle cfg (Reply \<lparr> status = 401, data = d \<rparr>) =
     Inl \<lparr> config = Some cfg, response = Some \<lparr> status = 401, data = d \<rparr>,
           AxiosError.message = ''Request failed with status code '' @ show_nat 401,
           AxiosError.code = Some ''ERR_BAD_REQUEST'' \<rparr>"
  by (simp add: settle_def)

text \<open>A request that carries the flag is transmitted once and its answer is final.\<close>

lemma axiosInstance_retried:
  assumes "isRetry cfg0"
  shows "axiosInstance env cfg0 b0 =
     (let n = length (sent b0);
          cfg = requestInterceptor (requestId env n) b0 cfg0;
          b = b0\<lparr> sent := sent b0 @ [cfg] \<rparr>
      in (case settle cfg (transport env n cfg) of
            Inr resp \<Rightarrow> (Inr resp, b)
          | Inl err \<Rightarrow> (Inl err, b)))"
proof -
  define n where "n = length (sent b0)"
  define cfg where "cfg = requestInterceptor (requestId env n) b0 cfg0"
  have flag: "isRetry cfg"
    using assms by (simp add: cfg_def requestInterceptor_isRetry)
  show ?thesis
  proof (cases "settle cfg (transport env n cfg)")
    case (Inl err)
    with flag settle_config[OF Inl] show ?thesis
      by (subst axiosInstance.simps) (simp add: Let_def n_def[symmetric] cfg_def[symmetric])
  next
    case (Inr resp)
    then show ?thesis
      by (subst axiosInstance.simps) (simp add: Let_def n_def[symmetric] cfg_def[symmetric])
  qed
qed


text \<open>The first answer to a request without the flag, when that answer is a 401.\<close>

lemma axiosInstance_first_401:
  assumes fresh: "\<not> isRetry cfg0"
    and cfg: "cfg = requestInterceptor (requestId env (length (sent b0))) b0 cfg0"
    and reply: "transport env (length (sent b0)) cfg = Reply \<lparr> status = 401, data = d \<rparr>"
    and b: "b = b0\<lparr> sent := sent b0 @ [cfg] \<rparr>"
    and err: "err = \<lparr> config = Some cfg, response = Some \<lparr> status = 401, data = d \<rparr>,
           AxiosError.message = ''Request failed with status code '' @ show_nat 401,
           AxiosError.code = Some ''ERR_BAD_REQUEST'' \<rparr>"
  shows "axiosInstance env cfg0 b0 =
     (case tryRefresh env (localStorage b0) of
        (None, ls') \<Rightarrow>
          (Inl (err\<lparr> config := Some (cfg\<lparr> isRetry := True \<rparr>) \<rparr>),
           b\<lparr> localStorage := ls', store := authReducer (store b0) clearAuth,
              location_href := ''/login'' \<rparr>)
      | (Some newAccessToken, ls') \<Rightarrow>
          axiosInstance env
            (cfg\<lparr> isRetry := True,
                 headers := (headers cfg)
                    \<lparr> Authorization := Some (''Bearer '' @ newAccessToken) \<rparr> \<rparr>)
            (b\<lparr> localStorage := ls',
               store := authReducer (store b0) (setAccessToken newAccessToken) \<rparr>))"
proof -
  have flag: "\<not> isRetry cfg"
    using fresh by (simp add: cfg requestInterceptor_isRetry)
  have st: "settle cfg (transport env (length (sent b0)) cfg) = Inl err"
    by (simp add: reply settle_401 err)
  show ?thesis
    by (subst axiosInstance.simps)
       (simp add: Let_def cfg[symmetric] st b err flag split: prod.splits option.splits)
qed

text \<open>
  C1. When every answer to the transmissions of one logical request is a 401, the
  response interceptor surfaces a failure (a 401 error) after at most one renewal and
  resend: the request is transmitted twice when it came without the \<open>_isRetry\<close> flag and
  the renewal succeeded, once otherwise; the requests sent before are untouched and every
  transmission after the first carries the flag, so there is never a second resend.
\<close>

theorem at_most_one_resend:
  assumes all401: "\<forall>n c. \<exists>d. transport env n c = Reply \<lparr> status = 401, data = d \<rparr>"
  shows "(\<exists>err. fst (axiosInstance env cfg0 b0) = Inl err
              \<and> map_option status (response err) = Some 401)
       \<and> length (sent (snd (axiosInstance env cfg0 b0))) =
           length (sent b0)
           + (if \<not> isRetry cfg0 \<and> fst (tryRefresh env (localStorage b0)) \<noteq> None then 2 else 1)
       \<and> take (length (sent b0)) (sent (snd (axiosInstance env cfg0 b0))) = sent b0
       \<and> (\<forall>c \<in> set (drop (Suc (length (sent b0))) (sent (snd (axiosInstance env cfg0 b0)))).
             isRetry c)"
proof -
  have once: "(\<exists>err. fst (axiosInstance env c1 b1) = Inl err
              \<and> map_option status (response err) = Some 401)
       \<and> (\<exists>c. isRetry c \<and> sent (snd (axiosInstance env c1 b1)) = sent b1 @ [c])"
    if "isRetry c1" for c1 b1
  proof -
    define c where "c = requestInterceptor (requestId env (length (sent b1))) b1 c1"
    obtain d where "transport env (length (sent b1)) c = Reply \<lparr> status = 401, data = d \<rparr>"
      using all401 by blast
    then have "axiosInstance env c1 b1 =
        (Inl \<lparr> config = Some c, response = Some \<lparr> status = 401, data = d \<rparr>,
           AxiosError.message = ''Request failed with status code '' @ show_nat 401,
           AxiosError.code = Some ''ERR_BAD_REQUEST'' \<rparr>, b1\<lparr> sent := sent b1 @ [c] \<rparr>)"
      by (simp add: axiosInstance_retried[OF that] Let_def c_def[symmetric] settle_401)
    moreover have "isRetry c"
      using that by (simp add: c_def requestInterceptor_isRetry)
    ultimately show ?thesis by simp
  qed
  show ?thesis
  proof (cases "isRetry cfg0")
    case True
    from once[OF True, of b0] True show ?thesis by auto
  next
    case False
    define cfg where "cfg = requestInterceptor (requestId env (length (sent b0))) b0 cfg0"
    define b where "b = b0\<lparr> sent := sent b0 @ [cfg] \<rparr>"
    obtain d where d: "transport env (length (sent b0)) cfg = Reply \<lparr> status = 401, data = d \<rparr>"
      using all401 by blast
    define err where "err = \<lparr> config = Some cfg, response = Some \<lparr> status = 401, data = d \<rparr>,
           AxiosError.message = ''Request failed with status code '' @ show_nat 401,
           AxiosError.code = Some ''ERR_BAD_REQUEST'' \<rparr>"
    note first = axiosInstance_first_401[OF False cfg_def d b_def err_def]
    obtain renewed ls' where tr: "tryRefresh env (localStorage b0) = (renewed, ls')"
      by (cases "tryRefresh env (localStorage b0)")
    show ?thesis
    proof (cases renewed)
      case None
      with first tr False show ?thesis
        by (simp add: b_def err_def)
    next
      case (Some newAccessToken)
      define c1 where "c1 = cfg\<lparr> isRetry := True,
                 headers := (headers cfg)
                    \<lparr> Authorization := Some (''Bearer '' @ newAccessToken) \<rparr> \<rparr>"
      define b1 where "b1 = b\<lparr> localStorage := ls',
               store := authReducer (store b0) (setAccessToken newAccessToken) \<rparr>"
      have eq: "axiosInstance env cfg0 b0 = axiosInstance env c1 b1"
        using first tr Some by (simp add: c1_def b1_def)
      have "isRetry c1" by (simp add: c1_def)
      from once[OF this, of b1] obtain e c where
        e: "fst (axiosInstance env c1 b1) = Inl e" "map_option status (response e) = Some 401"
        and c: "isRetry c" "sent (snd (axiosInstance env c1 b1)) = sent b1 @ [c]"
        by blast
      have sb1: "sent b1 = sent b0 @ [cfg]"
        by (simp add: b1_def b_def)
      from e c sb1 tr Some False show ?thesis
        by (simp add: eq)
    qed
  qed
qed


theorem at_most_one_resend_witness:
  "isl (fst (axiosInstance example_env example_request example_browser))
   \<and> length (sent (snd (axiosInstance example_env example_request example_browser))) = 2
   \<and> isl (fst (axiosInstance example_env example_request
                  (example_browser\<lparr> localStorage := Map.empty \<rparr>)))
   \<and> length (sent (snd (axiosInstance example_env example_request
                  (example_browser\<lparr> localStorage := Map.empty \<rparr>)))) = 1"
proof -
  have h: "\<forall>n c. \<exists>d. transport example_env n c = Reply \<lparr> status = 401, data = d \<rparr>"
    by (simp add: example_env_def)
  have r1: "fst (tryRefresh example_env (localStorage example_browser)) = Some ''N''"
    by (simp add: example_env_def example_browser_def example_defs tryRefresh_def
        getStoredTokens_def getItem_def isTokenValid_def getTokenMetadata_def
        refreshAccessToken_def generateAccessToken_def setItemJSON_def Let_def)
  have r2: "fst (tryRefresh example_env Map.empty) = None"
    by (simp add: tryRefresh_def getStoredTokens_def getItem_def)
  have f: "\<not> isRetry example_request" "sent example_browser = []"
    by (simp_all add: example_request_def example_browser_def)
  show ?thesis
    using at_most_one_resend[OF h, of example_request example_browser]
      at_most_one_resend[OF h, of example_request "example_browser\<lparr> localStorage := Map.empty \<rparr>"]
      r1 r2 f
    by auto
qed

text \<open>Whatever the network answers, one logical request is transmitted at most twice.\<close>

lemma axiosInstance_sends_at_most_twice:
  "length (sent (snd (axiosInstance env cfg0 b0))) \<le> length (sent b0) + 2"
proof -
  have once: "length (sent (snd (axiosInstance env c1 b1))) = Suc (length (sent b1))"
    if "isRetry c1" for c1 b1
    by (simp add: axiosInstance_retried[OF that] Let_def split: sum.splits)
  show ?thesis
  proof (cases "isRetry cfg0")
    case True
    then show ?thesis by (simp add: once)
  next
    case False
    show ?thesis
      by (subst axiosInstance.simps)
         (auto simp: Let_def once split: sum.splits option.splits prod.splits)
  qed
qed

section \<open>Login and the edited user records\<close>

lemma find_Some_in_set: "find P xs = Some x \<Longrightarrow> x \<in> set xs \<and> P x"
  by (induction xs) (auto split: if_splits)

text \<open>
  What \<open>login\<close> does: it fails with \<open>INVALID_CREDENTIALS\<close> exactly when no record of the
  fetched directory has the email and the password; the storage plays no part.
\<close>

lemma login_invalid_credentials_iff:
  "(\<exists>e. fst (login js uuid_a now_a uuid_r now_r (Some users) credentials ls) = Inl e
         \<and> AuthError.code e = INVALID_CREDENTIALS)
   \<longleftrightarrow> \<not> (\<exists>u \<in> set users. User.email u = LoginCredentials.email credentials
              \<and> UserCredential.password u = LoginCredentials.password credentials)"
  by (auto simp: login_def Let_def find_None_iff createTokenPair_def generateAccessToken_def
      generateRefreshToken_def split: option.splits prod.splits dest: find_Some_in_set)

text \<open>
  C3. The claim is that \<open>login\<close> matches the credentials against the directory with the
  edits of \<open>custom_users\<close> merged in, so that after a password change the new password
  logs in and the old one fails. The code of \<open>login\<close> does not read \<open>custom_users\<close>:
  after the first account has changed its password (the change succeeds, and the merged
  list and the examples shown on the login page carry the new password), \<open>login\<close> with
  the new password fails with \<open>INVALID_CREDENTIALS\<close> and \<open>login\<close> with the old
  password succeeds.
\<close>

theorem login_ignores_password_change:
  "fst (changePassword example_js (Some example_directory) Map.empty ''1''
          example_password_change) = None
   \<and> map (\<lambda>u. property u ''password'') (getAllUsers (Some example_directory) example_after_change)
       = [Some (JString ''admin456''), Some (JString ''user123'')]
   \<and> map LoginExample.password (getLoginExamples (Some example_directory) example_after_change)
       = [Some (JString ''admin456''), Some (JString ''user123'')]
   \<and> fst (login example_js ''A'' 0 ''R'' 0 (Some example_directory)
            \<lparr> LoginCredentials.email = ''admin@example.com'',
              LoginCredentials.password = ''admin456'' \<rparr> example_after_change)
       = Inl \<lparr> AuthError.code = INVALID_CREDENTIALS, AuthError.message = MSG_INVALID_CREDENTIALS \<rparr>
   \<and> fst (login example_js ''A'' 0 ''R'' 0 (Some example_directory)
            \<lparr> LoginCredentials.email = ''admin@example.com'',
              LoginCredentials.password = ''admin123'' \<rparr> example_after_change)
       = Inr \<lparr> LoginResponse.user = example_admin,
               tokens = \<lparr> TokenPair.accessToken = ''A'', TokenPair.refreshToken = ''R'' \<rparr> \<rparr>"
proof -
  have c: "changePassword example_js (Some example_directory) Map.empty ''1''
             example_password_change
      = (None, [''custom_users'' \<mapsto> written
           (JArray [JObject [(''id'', JString ''1''), (''email'', JString ''admin@example.com''),
                             (''password'', JString ''admin456''), (''name'', JString ''Admin''),
                             (''role'', JString ''admin'')]])])"
    by (simp add: example_password_change_def example_directory_def changePassword_def
        getUserById_def getAllUsers_def getCustomUsers_def saveCustomUsers_def setItemJSON_def
        CUSTOM_USERS_KEY_def Let_def UserCredential_json_def UserRole_json_def written_def
        List.map_filter_simps)
  have s: "example_after_change = [''custom_users'' \<mapsto> written
           (JArray [JObject [(''id'', JString ''1''), (''email'', JString ''admin@example.com''),
                             (''password'', JString ''admin456''), (''name'', JString ''Admin''),
                             (''role'', JString ''admin'')]])]"
    by (simp add: example_after_change_def c)
  have a: "getAllUsers (Some example_directory) example_after_change =
      [JObject [(''id'', JString ''1''), (''email'', JString ''admin@example.com''),
                (''password'', JString ''admin456''), (''name'', JString ''Admin''),
                (''role'', JString ''admin'')],
       JObject [(''id'', JString ''2''), (''email'', JString ''user@example.com''),
                (''password'', JString ''user123''), (''name'', JString ''User''),
                (''role'', JString ''user'')]]"
    by (simp add: s example_directory_def getAllUsers_def
        getCustomUsers_def CUSTOM_USERS_KEY_def Let_def UserCredential_json_def UserRole_json_def
        List.map_filter_simps)
  have l: "fst (login example_js ''A'' 0 ''R'' 0 (Some example_directory)
            \<lparr> LoginCredentials.email = ''admin@example.com'',
              LoginCredentials.password = ''admin456'' \<rparr> ls)
       = Inl \<lparr> AuthError.code = INVALID_CREDENTIALS, AuthError.message = MSG_INVALID_CREDENTIALS \<rparr>"
    "fst (login example_js ''A'' 0 ''R'' 0 (Some example_directory)
            \<lparr> LoginCredentials.email = ''admin@example.com'',
              LoginCredentials.password = ''admin123'' \<rparr> ls)
       = Inr \<lparr> LoginResponse.user = example_admin,
               tokens = \<lparr> TokenPair.accessToken = ''A'', TokenPair.refreshToken = ''R'' \<rparr> \<rparr>"
    for ls
    by (simp_all add: example_directory_def example_admin_def login_def createTokenPair_def
        generateAccessToken_def generateRefreshToken_def Let_def)
  show ?thesis
    by (simp add: c a l getLoginExamples_def)
qed

end
